theory Spec2Isabelle
  imports Complex_Main "HOL-Library.AList"
begin

section \<open>Data model\<close>

text \<open>
  The dictionaries built by \<^verbatim>\<open>_extract_track_info\<close> in \<^verbatim>\<open>library_analyzer.py\<close>.
  A track carries its id, its name, the ordered artist references (the first one is the
  primary artist), the playable URI and the derived release year. Values that Python
  represents by \<^verbatim>\<open>None\<close> are \<open>None\<close> here. The remaining keys of the dictionary
  (album, duration, popularity, explicit flag, preview URL) are never read by the functions
  below and are left to the record's extension slot.
\<close>

record artist_ref =
  aid :: string
  aname :: string

record track =
  tid :: string
  tname :: string
  artists :: "artist_ref list"
  uri :: "string option"
  release_year :: "int option"

text \<open>Exceptions as values: a failed call of the Spotify client, and Python's IndexError.\<close>

datatype error = RemoteError | IndexError

section \<open>Python string helpers (ASCII)\<close>

definition is_lower :: "char \<Rightarrow> bool" where
  "is_lower c = (let n = (of_char c :: nat) in 97 \<le> n \<and> n \<le> 122)"

definition is_upper :: "char \<Rightarrow> bool" where
  "is_upper c = (let n = (of_char c :: nat) in 65 \<le> n \<and> n \<le> 90)"

definition to_lower :: "char \<Rightarrow> char" where
  "to_lower c = (if is_upper c then char_of (of_char c + (32::nat)) else c)"

definition to_upper :: "char \<Rightarrow> char" where
  "to_upper c = (if is_lower c then char_of (of_char c - (32::nat)) else c)"

text \<open>\<^verbatim>\<open>str.lower()\<close>\<close>

definition lower :: "string \<Rightarrow> string" where
  "lower s = map to_lower s"

text \<open>\<^verbatim>\<open>str.title()\<close>: a cased character that follows an uncased one is upper-cased,
  every other cased character is lower-cased.\<close>

fun title_from :: "bool \<Rightarrow> string \<Rightarrow> string" where
  "title_from prev [] = []"
| "title_from prev (c # cs) =
     (if is_lower c then (if prev then c else to_upper c) # title_from True cs
      else if is_upper c then (if prev then to_lower c else c) # title_from True cs
      else c # title_from False cs)"

definition title :: "string \<Rightarrow> string" where
  "title s = title_from False s"

text \<open>\<^verbatim>\<open>str(n)\<close> for an integer: decimal digits, with a minus sign when negative.\<close>

fun str_nat :: "nat \<Rightarrow> string" where
  "str_nat n = (if n < 10 then [char_of (48 + n)]
                else str_nat (n div 10) @ [char_of (48 + n mod 10)])"

declare str_nat.simps [simp del]

definition str_int :: "int \<Rightarrow> string" where
  "str_int i = (if i < 0 then CHR ''-'' # str_nat (nat (- i)) else str_nat (nat i))"

text \<open>\<^verbatim>\<open>str.strip()\<close>: the ASCII characters Python counts as whitespace are removed from
  both ends.\<close>

definition is_space :: "char \<Rightarrow> bool" where
  "is_space c = (let n = (of_char c :: nat) in n = 32 \<or> (9 \<le> n \<and> n \<le> 13) \<or> (28 \<le> n \<and> n \<le> 31))"

definition strip :: "string \<Rightarrow> string" where
  "strip s = rev (dropWhile is_space (rev (dropWhile is_space s)))"

text \<open>\<^verbatim>\<open>a in b\<close> on strings: \<open>a\<close> occurs in \<open>b\<close> as a contiguous substring.\<close>

fun starts_with :: "string \<Rightarrow> string \<Rightarrow> bool" where
  "starts_with [] s = True"
| "starts_with (c # cs) [] = False"
| "starts_with (c # cs) (d # ds) = (c = d \<and> starts_with cs ds)"

fun str_in :: "string \<Rightarrow> string \<Rightarrow> bool" where
  "str_in a [] = (a = [])"
| "str_in a (d # ds) = (starts_with a (d # ds) \<or> str_in a ds)"

section \<open>The Spotify client seen from the playlist manager\<close>

text \<open>
  The two write calls the playlist manager issues. The remote service is a state: the
  log of the calls received so far, the contents of the playlists created so far (a
  playlist's identity is its index), and a failure schedule telling which call, counted
  from the first one, raises. The schedule is arbitrary, so every pattern of failures a
  run can meet is one of its values. The owner passed to \<^verbatim>\<open>user_playlist_create\<close> is the
  constant \<^verbatim>\<open>self.user_id\<close> and is not recorded.
\<close>

datatype call =
  CreatePlaylist string string bool
| AddItems nat "string list"

record remote =
  fails :: "nat \<Rightarrow> bool"
  calls :: "call list"
  playlists :: "string list list"

definition user_playlist_create ::
    "remote \<Rightarrow> string \<Rightarrow> bool \<Rightarrow> string \<Rightarrow> (error + nat) \<times> remote" where
  "user_playlist_create r name public description =
     (let r' = r\<lparr>calls := calls r @ [CreatePlaylist name description public]\<rparr>
      in if fails r (length (calls r)) then (Inl RemoteError, r')
         else (Inr (length (playlists r)), r'\<lparr>playlists := playlists r @ [[]]\<rparr>))"

definition playlist_add_items ::
    "remote \<Rightarrow> nat \<Rightarrow> string list \<Rightarrow> (error + unit) \<times> remote" where
  "playlist_add_items r playlist_id batch =
     (let r' = r\<lparr>calls := calls r @ [AddItems playlist_id batch]\<rparr>
      in if fails r (length (calls r)) \<or> length (playlists r) \<le> playlist_id
         then (Inl RemoteError, r')
         else (Inr (), r'\<lparr>playlists :=
                 (playlists r)[playlist_id := playlists r ! playlist_id @ batch]\<rparr>))"

section \<open>playlist\_manager.py\<close>

text \<open>\<^verbatim>\<open>create_playlist\<close>: the remote call; an exception is logged and raised again.\<close>

definition create_playlist ::
    "remote \<Rightarrow> string \<Rightarrow> string \<Rightarrow> bool \<Rightarrow> (error + nat) \<times> remote" where
  "create_playlist r name description public = user_playlist_create r name public description"

text \<open>
  \<^verbatim>\<open>add_tracks_to_playlist\<close>: the loop \<^verbatim>\<open>for i in range(0, len(track_uris), 100)\<close>
  writes \<^verbatim>\<open>track_uris[i:i + 100]\<close>; the first exception ends the loop and the function
  returns False, otherwise it returns True. An empty list returns False at once.
\<close>

definition batch_size :: nat where
  "batch_size = 100"

function add_items_from :: "remote \<Rightarrow> nat \<Rightarrow> string list \<Rightarrow> nat \<Rightarrow> bool \<times> remote" where
  "add_items_from r playlist_id track_uris i =
     (if i < length track_uris then
        (case playlist_add_items r playlist_id (take batch_size (drop i track_uris)) of
           (Inl e, r') \<Rightarrow> (False, r')
         | (Inr u, r') \<Rightarrow> add_items_from r' playlist_id track_uris (i + batch_size))
      else (True, r))"
  by pat_completeness auto
termination
  by (relation "measure (\<lambda>(r, p, us, i). length us - i)") (auto simp: batch_size_def)

declare add_items_from.simps [simp del]

definition add_tracks_to_playlist :: "remote \<Rightarrow> nat \<Rightarrow> string list \<Rightarrow> bool \<times> remote" where
  "add_tracks_to_playlist r playlist_id track_uris =
     (if track_uris = [] then (False, r) else add_items_from r playlist_id track_uris 0)"

text \<open>
  The list comprehension \<^verbatim>\<open>[t['uri'] for t in tracks if t.get('uri')]\<close>: a URI that is
  None or the empty string is not truthy and is left out.
\<close>

definition has_uri :: "track \<Rightarrow> bool" where
  "has_uri t = (case uri t of None \<Rightarrow> False | Some u \<Rightarrow> u \<noteq> [])"

definition track_uris :: "track list \<Rightarrow> string list" where
  "track_uris tracks = map (\<lambda>t. the (uri t)) (filter has_uri tracks)"

text \<open>
  The \<^verbatim>\<open>try\<close> block that the five \<^verbatim>\<open>create_*_playlists\<close> functions share word for word:
  create the playlist, collect the URIs, add them, record the playlist under the
  bucket's key; an exception (only \<^verbatim>\<open>create_playlist\<close> can raise one, since
  \<^verbatim>\<open>add_tracks_to_playlist\<close> catches its own) is logged and the bucket is left out.
  The value returned by \<^verbatim>\<open>add_tracks_to_playlist\<close> is not used. The result dictionary is
  an association list in insertion order; \<open>AList.update\<close> overwrites an existing key in
  place and appends a new one, as a Python dict does.
\<close>

definition create_and_fill ::
    "string \<Rightarrow> string \<Rightarrow> bool \<Rightarrow> 'k \<Rightarrow> track list \<Rightarrow> ('k \<times> nat) list \<times> remote
      \<Rightarrow> ('k \<times> nat) list \<times> remote" where
  "create_and_fill playlist_name description public key tracks st =
     (case st of (created_playlists, r) \<Rightarrow>
        (case create_playlist r playlist_name description public of
           (Inl e, r1) \<Rightarrow> (created_playlists, r1)
         | (Inr playlist_id, r1) \<Rightarrow>
             (case add_tracks_to_playlist r1 playlist_id (track_uris tracks) of
                (ok, r2) \<Rightarrow> (AList.update key playlist_id created_playlists, r2))))"

text \<open>\<^verbatim>\<open>create_genre_playlists\<close>: the two f-strings, one loop iteration, and the loop over
  \<^verbatim>\<open>genre_map.items()\<close>.\<close>

definition genre_playlist_name :: "string \<Rightarrow> string \<Rightarrow> string" where
  "genre_playlist_name prefix genre = prefix @ '' - '' @ title genre"

definition genre_description :: "string \<Rightarrow> track list \<Rightarrow> string" where
  "genre_description genre tracks =
     ''Auto-generated playlist containing '' @ str_nat (length tracks) @ '' '' @ genre @ '' tracks''"

definition genre_step ::
    "string \<Rightarrow> bool \<Rightarrow> (string \<times> nat) list \<times> remote \<Rightarrow> string \<times> track list
      \<Rightarrow> (string \<times> nat) list \<times> remote" where
  "genre_step prefix public st b =
     (case b of (genre, tracks) \<Rightarrow>
        if tracks = [] then st
        else create_and_fill (genre_playlist_name prefix genre) (genre_description genre tracks)
               public genre tracks st)"

definition create_genre_playlists ::
    "remote \<Rightarrow> (string \<times> track list) list \<Rightarrow> string \<Rightarrow> bool
      \<Rightarrow> (string \<times> nat) list \<times> remote" where
  "create_genre_playlists r genre_map prefix public =
     foldl (genre_step prefix public) ([], r) genre_map"

text \<open>\<^verbatim>\<open>create_artist_playlists\<close>: the dictionary is first cut down to the artists with at
  least \<^verbatim>\<open>min_tracks\<close> tracks (5 unless the caller says otherwise).\<close>

definition artist_playlist_name :: "string \<Rightarrow> string \<Rightarrow> string" where
  "artist_playlist_name prefix artist = prefix @ '' - '' @ artist"

definition artist_description :: "string \<Rightarrow> track list \<Rightarrow> string" where
  "artist_description artist tracks =
     ''Collection of '' @ str_nat (length tracks) @ '' tracks by '' @ artist"

definition artist_step ::
    "string \<Rightarrow> bool \<Rightarrow> (string \<times> nat) list \<times> remote \<Rightarrow> string \<times> track list
      \<Rightarrow> (string \<times> nat) list \<times> remote" where
  "artist_step prefix public st b =
     (case b of (artist, tracks) \<Rightarrow>
        create_and_fill (artist_playlist_name prefix artist) (artist_description artist tracks)
          public artist tracks st)"

definition create_artist_playlists ::
    "remote \<Rightarrow> (string \<times> track list) list \<Rightarrow> string \<Rightarrow> bool \<Rightarrow> int
      \<Rightarrow> (string \<times> nat) list \<times> remote" where
  "create_artist_playlists r artist_map prefix public min_tracks =
     (let filtered_artists = filter (\<lambda>(k, v). min_tracks \<le> int (length v)) artist_map
      in foldl (artist_step prefix public) ([], r) filtered_artists)"

text \<open>\<^verbatim>\<open>create_year_playlists\<close>: a key of the year dictionary is an integer year, None
  (what \<^verbatim>\<open>analyze_library_by_year\<close> finds for a track without release date) or a string.\<close>

datatype year_key = YearInt int | YearNone | YearStr string

fun str_year :: "year_key \<Rightarrow> string" where
  "str_year (YearInt y) = str_int y"
| "str_year YearNone = ''None''"
| "str_year (YearStr s) = s"

definition year_playlist_name :: "string \<Rightarrow> year_key \<Rightarrow> string" where
  "year_playlist_name prefix year =
     (if length (str_year year) = 3 then prefix @ '' - '' @ str_year year @ ''s Music''
      else prefix @ '' - '' @ str_year year)"

definition year_description :: "year_key \<Rightarrow> track list \<Rightarrow> string" where
  "year_description year tracks =
     ''Music from '' @ str_year year @ '' - '' @ str_nat (length tracks) @ '' tracks''"

definition year_step ::
    "string \<Rightarrow> bool \<Rightarrow> (year_key \<times> nat) list \<times> remote \<Rightarrow> year_key \<times> track list
      \<Rightarrow> (year_key \<times> nat) list \<times> remote" where
  "year_step prefix public st b =
     (case b of (year, tracks) \<Rightarrow>
        if tracks = [] \<or> year = YearStr ''Unknown'' then st
        else create_and_fill (year_playlist_name prefix year) (year_description year tracks)
               public year tracks st)"

definition create_year_playlists ::
    "remote \<Rightarrow> (year_key \<times> track list) list \<Rightarrow> string \<Rightarrow> bool
      \<Rightarrow> (year_key \<times> nat) list \<times> remote" where
  "create_year_playlists r year_map prefix public =
     foldl (year_step prefix public) ([], r) year_map"

text \<open>\<^verbatim>\<open>create_mood_playlists\<close>\<close>

definition mood_descriptions :: "(string \<times> string) list" where
  "mood_descriptions =
     [(''Happy'', ''Upbeat and positive vibes''),
      (''Sad'', ''Melancholic and emotional tracks''),
      (''Energetic'', ''High energy and fast-paced music''),
      (''Calm'', ''Relaxing and peaceful tunes''),
      (''Party'', ''Perfect for parties and dancing''),
      (''Chill'', ''Laid-back and acoustic vibes'')]"

definition mood_playlist_name :: "string \<Rightarrow> string \<Rightarrow> string" where
  "mood_playlist_name prefix mood = prefix @ '' - '' @ mood"

definition mood_description :: "string \<Rightarrow> track list \<Rightarrow> string" where
  "mood_description mood tracks =
     (case map_of mood_descriptions mood of None \<Rightarrow> [] | Some d \<Rightarrow> d)
       @ '' - '' @ str_nat (length tracks) @ '' tracks''"

definition mood_step ::
    "string \<Rightarrow> bool \<Rightarrow> (string \<times> nat) list \<times> remote \<Rightarrow> string \<times> track list
      \<Rightarrow> (string \<times> nat) list \<times> remote" where
  "mood_step prefix public st b =
     (case b of (mood, tracks) \<Rightarrow>
        if tracks = [] then st
        else create_and_fill (mood_playlist_name prefix mood) (mood_description mood tracks)
               public mood tracks st)"

definition create_mood_playlists ::
    "remote \<Rightarrow> (string \<times> track list) list \<Rightarrow> string \<Rightarrow> bool
      \<Rightarrow> (string \<times> nat) list \<times> remote" where
  "create_mood_playlists r mood_map prefix public =
     foldl (mood_step prefix public) ([], r) mood_map"

text \<open>
  \<^verbatim>\<open>create_decade_playlists\<close> groups the tracks itself. \<^verbatim>\<open>decade_map\<close> is a Python dict,
  iterated in insertion order: a decade enters it when its first track is met. A release
  year that is None or 0 is not truthy and the track is left out; \<open>div\<close> on \<open>int\<close>
  rounds down, as Python's \<^verbatim>\<open>//\<close> does.
\<close>

definition dict_append :: "'k \<Rightarrow> 'v \<Rightarrow> ('k \<times> 'v list) list \<Rightarrow> ('k \<times> 'v list) list" where
  "dict_append k v m = AList.update k ((case map_of m k of None \<Rightarrow> [] | Some vs \<Rightarrow> vs) @ [v]) m"

definition decade_group :: "(int \<times> track list) list \<Rightarrow> track \<Rightarrow> (int \<times> track list) list" where
  "decade_group decade_map t =
     (case release_year t of
        None \<Rightarrow> decade_map
      | Some year \<Rightarrow> if year = 0 then decade_map
                     else dict_append ((year div 10) * 10) t decade_map)"

definition decade_playlist_name :: "string \<Rightarrow> int \<Rightarrow> string" where
  "decade_playlist_name prefix decade = prefix @ '' - '' @ str_int decade @ ''s''"

definition decade_description :: "int \<Rightarrow> track list \<Rightarrow> string" where
  "decade_description decade decade_tracks =
     ''Music from the '' @ str_int decade @ ''s - '' @ str_nat (length decade_tracks) @ '' tracks''"

definition decade_step ::
    "string \<Rightarrow> bool \<Rightarrow> (int \<times> nat) list \<times> remote \<Rightarrow> int \<times> track list
      \<Rightarrow> (int \<times> nat) list \<times> remote" where
  "decade_step prefix public st b =
     (case b of (decade, decade_tracks) \<Rightarrow>
        create_and_fill (decade_playlist_name prefix decade)
          (decade_description decade decade_tracks) public decade decade_tracks st)"

definition decade_map_of :: "track list \<Rightarrow> (int \<times> track list) list" where
  "decade_map_of tracks = foldl decade_group [] tracks"

definition create_decade_playlists ::
    "remote \<Rightarrow> track list \<Rightarrow> string \<Rightarrow> bool \<Rightarrow> (int \<times> nat) list \<times> remote" where
  "create_decade_playlists r tracks prefix public =
     (let decade_map = decade_map_of tracks
      in foldl (decade_step prefix public) ([], r) decade_map)"

text \<open>\<^verbatim>\<open>create_custom_playlist\<close>: the playlist is created first; without a URI to add, or
  after an exception, the function returns None.\<close>

definition create_custom_playlist ::
    "remote \<Rightarrow> string \<Rightarrow> track list \<Rightarrow> string \<Rightarrow> bool \<Rightarrow> nat option \<times> remote" where
  "create_custom_playlist r name tracks description public =
     (case create_playlist r name description public of
        (Inl e, r1) \<Rightarrow> (None, r1)
      | (Inr playlist_id, r1) \<Rightarrow>
          (if track_uris tracks \<noteq> [] then
             (case add_tracks_to_playlist r1 playlist_id (track_uris tracks) of
                (ok, r2) \<Rightarrow> (Some playlist_id, r2))
           else (None, r1)))"

section \<open>The Spotify client seen from the library analyzer\<close>

text \<open>
  The read calls. \<^verbatim>\<open>sp.artist(id)\<close> returns the artist object, of which only the genre
  list is read, or raises (\<open>None\<close>). \<^verbatim>\<open>sp.audio_features(batch)\<close> returns one entry
  per requested id, a feature object or None. The catalog does not change during a run.
  The feature values are real numbers; the code compares them with decimal literals only.
\<close>

record artist_info =
  genres :: "string list"

record audio_features =
  fid :: string
  valence :: real
  energy :: real
  danceability :: real
  acousticness :: real
  tempo :: real

record catalog =
  artist :: "string \<Rightarrow> artist_info option"
  audio_features :: "string \<Rightarrow> audio_features option"

section \<open>library\_analyzer.py: classification and filtering\<close>

text \<open>
  \<^verbatim>\<open>get_audio_features\<close>: the ids are sent in batches of 100 and the entries that are
  not None are collected.
\<close>

function audio_features_from ::
    "catalog \<Rightarrow> string list \<Rightarrow> nat \<Rightarrow> audio_features list \<Rightarrow> audio_features list" where
  "audio_features_from cat track_ids i all_features =
     (if i < length track_ids then
        (let batch = take 100 (drop i track_ids);
             features = map (audio_features cat) batch
         in audio_features_from cat track_ids (i + 100)
              (all_features @ List.map_filter (\<lambda>f. f) features))
      else all_features)"
  by pat_completeness auto
termination
  by (relation "measure (\<lambda>(c, ids, i, fs). length ids - i)") auto

declare audio_features_from.simps [simp del]

definition get_audio_features :: "catalog \<Rightarrow> string list \<Rightarrow> audio_features list" where
  "get_audio_features cat track_ids =
     (if track_ids = [] then [] else audio_features_from cat track_ids 0 [])"

text \<open>The dict comprehension \<^verbatim>\<open>{f['id']: f for f in features if f}\<close>: a later entry with
  the same id replaces an earlier one.\<close>

definition feature_dict :: "audio_features list \<Rightarrow> (string \<rightharpoonup> audio_features)" where
  "feature_dict features = foldl (\<lambda>m f. m(fid f \<mapsto> f)) Map.empty features"

text \<open>
  \<^verbatim>\<open>analyze_library_by_genre\<close>, called with a track list. For each track the primary
  artist is looked up remotely; the list of the ids looked up, in call order, is returned
  beside the result. \<^verbatim>\<open>track['artists'][0]\<close> stands before the \<^verbatim>\<open>try\<close>: a track without
  artist raises IndexError out of the function. A failed lookup puts the track under
  Unknown, as an empty genre list does.
\<close>

fun analyze_genres_from ::
    "catalog \<Rightarrow> (string \<times> track list) list \<times> string list \<Rightarrow> track list
      \<Rightarrow> (error + (string \<times> track list) list) \<times> string list" where
  "analyze_genres_from cat (genre_map, lookups) [] = (Inr genre_map, lookups)"
| "analyze_genres_from cat (genre_map, lookups) (t # ts) =
     (case artists t of
        [] \<Rightarrow> (Inl IndexError, lookups)
      | a # _ \<Rightarrow>
          (let artist_id = aid a; lookups' = lookups @ [artist_id]
           in case artist cat artist_id of
                None \<Rightarrow> analyze_genres_from cat (dict_append ''Unknown'' t genre_map, lookups') ts
              | Some info \<Rightarrow>
                  (let gs = (if genres info = [] then [''Unknown''] else genres info)
                   in analyze_genres_from cat
                        (foldl (\<lambda>m genre. dict_append genre t m) genre_map gs, lookups') ts)))"

definition analyze_library_by_genre ::
    "catalog \<Rightarrow> track list \<Rightarrow> (error + (string \<times> track list) list) \<times> string list" where
  "analyze_library_by_genre cat tracks = analyze_genres_from cat ([], []) tracks"

text \<open>
  \<^verbatim>\<open>analyze_library_by_mood\<close>, called with a track list: the six mood lists, filled in
  track order by six independent tests on the track's features; a track without features
  is skipped.
\<close>

definition mood_classify ::
    "(string \<rightharpoonup> audio_features) \<Rightarrow> (string \<times> track list) list \<Rightarrow> track
      \<Rightarrow> (string \<times> track list) list" where
  "mood_classify fd mood_map t =
     (case fd (tid t) of
        None \<Rightarrow> mood_map
      | Some f \<Rightarrow>
          (let m1 = (if valence f > 0.6 \<and> energy f > 0.6
                     then dict_append ''Happy'' t mood_map else mood_map);
               m2 = (if valence f < 0.4 \<and> energy f < 0.4
                     then dict_append ''Sad'' t m1 else m1);
               m3 = (if energy f > 0.7 \<and> tempo f > 120
                     then dict_append ''Energetic'' t m2 else m2);
               m4 = (if energy f < 0.4 \<and> tempo f < 100
                     then dict_append ''Calm'' t m3 else m3);
               m5 = (if danceability f > 0.7 \<and> energy f > 0.7
                     then dict_append ''Party'' t m4 else m4);
               m6 = (if acousticness f > 0.5 \<and> energy f < 0.5
                     then dict_append ''Chill'' t m5 else m5)
           in m6))"

definition analyze_library_by_mood :: "catalog \<Rightarrow> track list \<Rightarrow> (string \<times> track list) list" where
  "analyze_library_by_mood cat tracks =
     (let track_ids = map tid tracks;
          features = get_audio_features cat track_ids;
          mood_map = [(''Happy'', []), (''Sad'', []), (''Energetic'', []), (''Calm'', []),
                      (''Party'', []), (''Chill'', [])];
          fd = feature_dict features
      in foldl (mood_classify fd) mood_map tracks)"

text \<open>
  \<^verbatim>\<open>filter_tracks\<close>. Each \<^verbatim>\<open>if\<close> on an optional argument is Python's truth test: None, 0,
  the empty string and the empty list count as absent.
\<close>

definition truthy_int :: "int option \<Rightarrow> bool" where
  "truthy_int x = (case x of None \<Rightarrow> False | Some n \<Rightarrow> n \<noteq> 0)"

definition truthy_list :: "'a list option \<Rightarrow> bool" where
  "truthy_list x = (case x of None \<Rightarrow> False | Some xs \<Rightarrow> xs \<noteq> [])"

definition year_ok :: "int option \<Rightarrow> int option \<Rightarrow> track \<Rightarrow> bool" where
  "year_ok year_from year_to t =
     (truthy_int (release_year t)
      \<and> (if truthy_int year_from then the year_from \<le> the (release_year t) else True)
      \<and> (if truthy_int year_to then the (release_year t) \<le> the year_to else True))"

definition artist_ok :: "string list \<Rightarrow> track \<Rightarrow> bool" where
  "artist_ok artists_lower t =
     list_ex (\<lambda>artist_name. lower artist_name \<in> set artists_lower) (map aname (artists t))"

definition genre_ok :: "catalog \<Rightarrow> string list \<Rightarrow> track \<Rightarrow> bool" where
  "genre_ok cat genres_lower t =
     (case artists t of
        [] \<Rightarrow> False
      | a # _ \<Rightarrow>
          (case artist cat (aid a) of
             None \<Rightarrow> False
           | Some info \<Rightarrow>
               (let artist_genres = map lower (genres info)
                in list_ex (\<lambda>filter_genre. list_ex (\<lambda>genre. str_in filter_genre genre) artist_genres)
                     genres_lower)))"

definition mood_ok :: "(string \<rightharpoonup> audio_features) \<Rightarrow> string \<Rightarrow> track \<Rightarrow> bool" where
  "mood_ok fd mood t =
     (case fd (tid t) of
        None \<Rightarrow> False
      | Some f \<Rightarrow>
          (let mood_lower = lower mood
           in if mood_lower = ''happy'' \<and> valence f > 0.6 \<and> energy f > 0.6 then True
              else if mood_lower = ''sad'' \<and> valence f < 0.4 \<and> energy f < 0.4 then True
              else if mood_lower = ''energetic'' \<and> energy f > 0.7 \<and> tempo f > 120 then True
              else if mood_lower = ''calm'' \<and> energy f < 0.4 \<and> tempo f < 100 then True
              else if mood_lower = ''party'' \<and> danceability f > 0.7 \<and> energy f > 0.7 then True
              else False))"

definition filter_tracks ::
    "catalog \<Rightarrow> track list \<Rightarrow> string list option \<Rightarrow> string option \<Rightarrow> int option \<Rightarrow> int option
      \<Rightarrow> string list option \<Rightarrow> track list" where
  "filter_tracks cat tracks genres_arg mood year_from year_to artists_arg =
     (let filtered = tracks;
          filtered = (if truthy_int year_from \<or> truthy_int year_to
                      then filter (year_ok year_from year_to) filtered else filtered);
          filtered = (if truthy_list artists_arg
                      then (let artists_lower =
                                  map (\<lambda>a. lower (strip a)) (filter (\<lambda>a. strip a \<noteq> []) (the artists_arg))
                            in filter (artist_ok artists_lower) filtered)
                      else filtered);
          filtered = (if truthy_list genres_arg
                      then (let genres_lower =
                                  map (\<lambda>g. lower (strip g)) (filter (\<lambda>g. strip g \<noteq> []) (the genres_arg))
                            in filter (genre_ok cat genres_lower) filtered)
                      else filtered);
          filtered = (if truthy_list mood
                      then (let track_ids = map tid filtered;
                                features = get_audio_features cat track_ids;
                                fd = feature_dict features
                            in filter (mood_ok fd (the mood)) filtered)
                      else filtered)
      in filtered)"

section \<open>library\_analyzer.py: the paginator\<close>

text \<open>
  \<^verbatim>\<open>get_saved_tracks\<close>. A page holds its items (taken here as the tracks that
  \<^verbatim>\<open>_extract_track_info\<close> makes of them) and tells whether a next page exists. The remote
  call \<^verbatim>\<open>current_user_saved_tracks(limit=50, offset=offset)\<close> is a function from the
  offset to a page.
\<close>

record 'a page =
  items :: "'a list"
  has_next :: bool

text \<open>The inner \<^verbatim>\<open>for\<close> loop: every item is appended, and the loop breaks as soon as a truthy
  limit is reached.\<close>

fun collect_items :: "int option \<Rightarrow> 'a list \<Rightarrow> 'a list \<Rightarrow> 'a list" where
  "collect_items limit tracks [] = tracks"
| "collect_items limit tracks (item # rest) =
     (let tracks' = tracks @ [item]
      in if truthy_int limit \<and> the limit \<le> int (length tracks') then tracks'
         else collect_items limit tracks' rest)"

text \<open>
  The \<^verbatim>\<open>while True\<close> loop, with the offsets of the pages fetched so far. Nothing in the
  code bounds the number of rounds, so the loop is a partial function: \<open>None\<close> stands for a
  run that does not return.
\<close>

partial_function (option) saved_tracks_loop ::
    "(nat \<Rightarrow> 'a page) \<Rightarrow> int option \<Rightarrow> 'a list \<Rightarrow> nat \<Rightarrow> nat list \<Rightarrow> ('a list \<times> nat list) option" where
  "saved_tracks_loop fetch limit tracks offset fetched =
     (let results = fetch offset; fetched' = fetched @ [offset]
      in if items results = [] then Some (tracks, fetched')
         else (let tracks' = collect_items limit tracks (items results);
                   offset' = offset + 50
               in if \<not> has_next results \<or> (truthy_int limit \<and> the limit \<le> int (length tracks'))
                  then Some (tracks', fetched')
                  else saved_tracks_loop fetch limit tracks' offset' fetched'))"

text \<open>The slice \<^verbatim>\<open>tracks[:n]\<close>; a negative \<open>n\<close> counts from the end.\<close>

definition slice_to :: "int \<Rightarrow> 'a list \<Rightarrow> 'a list" where
  "slice_to n xs = (if n < 0 then take (length xs - nat (- n)) xs else take (nat n) xs)"

definition get_saved_tracks ::
    "(nat \<Rightarrow> 'a page) \<Rightarrow> int option \<Rightarrow> ('a list \<times> nat list) option" where
  "get_saved_tracks fetch limit =
     (case saved_tracks_loop fetch limit [] 0 [] of
        None \<Rightarrow> None
      | Some (tracks, fetched) \<Rightarrow>
          Some (if truthy_int limit then slice_to (the limit) tracks else tracks, fetched))"

text \<open>
  The saved-tracks endpoint of the service over a library \<open>lib\<close>: the page at an offset
  holds the next 50 items at most, and a next page is announced while items remain
  behind it.
\<close>

definition saved_tracks_endpoint :: "'a list \<Rightarrow> nat \<Rightarrow> 'a page" where
  "saved_tracks_endpoint lib offset =
     \<lparr>items = take 50 (drop offset lib), has_next = (offset + 50 < length lib)\<rparr>"

section \<open>library\_analyzer.py: tracks from several playlists\<close>

text \<open>
  What the service delivers for the sources of \<^verbatim>\<open>get_tracks_from_playlists\<close>. For the
  id \<^verbatim>\<open>liked_songs\<close> the function calls \<^verbatim>\<open>get_saved_tracks()\<close>, which raises or returns
  a track list. For any other id it reads \<^verbatim>\<open>sp.playlist_tracks\<close> and then \<^verbatim>\<open>sp.next\<close>
  page by page: a page carries its items (an item without track is \<open>None\<close>), and after it
  comes the next page, the end of the playlist, or an exception.
\<close>

datatype pages = End | Fail | Page "track option list" pages

record library =
  saved_tracks :: "error + track list"
  playlist_pages :: "string \<Rightarrow> pages"

text \<open>
  The body of the loop over the liked tracks and the body of the loop over the items of
  a page: a track whose id is not in \<^verbatim>\<open>seen_track_ids\<close> is appended and its id recorded.
\<close>

definition add_track :: "track list \<times> string set \<Rightarrow> track \<Rightarrow> track list \<times> string set" where
  "add_track st t =
     (case st of (all_tracks, seen_track_ids) \<Rightarrow>
        if tid t \<notin> seen_track_ids then (all_tracks @ [t], insert (tid t) seen_track_ids) else st)"

definition add_item :: "track list \<times> string set \<Rightarrow> track option \<Rightarrow> track list \<times> string set" where
  "add_item st item =
     (case item of
        None \<Rightarrow> st
      | Some t \<Rightarrow>
          (case st of (all_tracks, seen_track_ids) \<Rightarrow>
             if tid t \<notin> seen_track_ids then (all_tracks @ [t], insert (tid t) seen_track_ids) else st))"

text \<open>The \<^verbatim>\<open>while results\<close> loop. An exception leaves the \<^verbatim>\<open>try\<close> block; the handler logs
  it, and what was collected so far stays.\<close>

fun read_pages :: "pages \<Rightarrow> track list \<times> string set \<Rightarrow> track list \<times> string set" where
  "read_pages End st = st"
| "read_pages Fail st = st"
| "read_pages (Page its rest) st = read_pages rest (foldl add_item st its)"

definition read_source :: "library \<Rightarrow> track list \<times> string set \<Rightarrow> string \<Rightarrow> track list \<times> string set" where
  "read_source lib st playlist_id =
     (if playlist_id = ''liked_songs'' then
        (case saved_tracks lib of
           Inl e \<Rightarrow> st
         | Inr liked_tracks \<Rightarrow> foldl add_track st liked_tracks)
      else read_pages (playlist_pages lib playlist_id) st)"

definition get_tracks_from_playlists :: "library \<Rightarrow> string list \<Rightarrow> track list" where
  "get_tracks_from_playlists lib playlist_ids = fst (foldl (read_source lib) ([], {}) playlist_ids)"

section \<open>Observations on a run\<close>

text \<open>The playlist-creation calls in the log of the remote service, in the order issued.\<close>

fun is_create :: "call \<Rightarrow> bool" where
  "is_create (CreatePlaylist n d p) = True"
| "is_create (AddItems p us) = False"

definition create_calls :: "remote \<Rightarrow> call list" where
  "create_calls r = filter is_create (calls r)"

text \<open>First-seen order: every element is kept where its key occurs first, and the later
  elements with the same key are dropped.\<close>

fun first_seen_by :: "('a \<Rightarrow> 'k) \<Rightarrow> 'a list \<Rightarrow> 'a list" where
  "first_seen_by f [] = []"
| "first_seen_by f (x # xs) = x # first_seen_by f (filter (\<lambda>y. f y \<noteq> f x) xs)"

text \<open>The decades of the tracks that have a (truthy) release year, in track order.\<close>

definition track_decades :: "track list \<Rightarrow> int list" where
  "track_decades tracks =
     concat (map (\<lambda>t. case release_year t of None \<Rightarrow> []
                        | Some year \<Rightarrow> if year = 0 then [] else [(year div 10) * 10]) tracks)"

text \<open>
  The six moods and their threshold predicates, as the specification lists them:
  Happy: valence > 0.6 and energy > 0.6; Sad: valence < 0.4 and energy < 0.4;
  Energetic: energy > 0.7 and tempo > 120; Calm: energy < 0.4 and tempo < 100;
  Party: danceability > 0.7 and energy > 0.7; Chill: acousticness > 0.5 and energy < 0.5.
\<close>

datatype mood = Happy | Sad | Energetic | Calm | Party | Chill

fun mood_label :: "mood \<Rightarrow> string" where
  "mood_label Happy = ''Happy''"
| "mood_label Sad = ''Sad''"
| "mood_label Energetic = ''Energetic''"
| "mood_label Calm = ''Calm''"
| "mood_label Party = ''Party''"
| "mood_label Chill = ''Chill''"

fun mood_threshold :: "mood \<Rightarrow> audio_features \<Rightarrow> bool" where
  "mood_threshold Happy f = (valence f > 0.6 \<and> energy f > 0.6)"
| "mood_threshold Sad f = (valence f < 0.4 \<and> energy f < 0.4)"
| "mood_threshold Energetic f = (energy f > 0.7 \<and> tempo f > 120)"
| "mood_threshold Calm f = (energy f < 0.4 \<and> tempo f < 100)"
| "mood_threshold Party f = (danceability f > 0.7 \<and> energy f > 0.7)"
| "mood_threshold Chill f = (acousticness f > 0.5 \<and> energy f < 0.5)"

text \<open>The id of a track's primary artist, and the features a run resolves for the ids of
  a track list.\<close>

definition primary_artist_id :: "track \<Rightarrow> string" where
  "primary_artist_id t = aid (hd (artists t))"

definition resolved_features :: "catalog \<Rightarrow> track list \<Rightarrow> (string \<rightharpoonup> audio_features)" where
  "resolved_features cat tracks = feature_dict (get_audio_features cat (map tid tracks))"

text \<open>The tracks a source delivers, in order: the liked tracks when \<^verbatim>\<open>get_saved_tracks\<close>
  returns, the tracks of the pages read before the end or the exception otherwise.\<close>

fun page_tracks :: "pages \<Rightarrow> track list" where
  "page_tracks End = []"
| "page_tracks Fail = []"
| "page_tracks (Page its rest) = List.map_filter (\<lambda>i. i) its @ page_tracks rest"

definition source_tracks :: "library \<Rightarrow> string \<Rightarrow> track list" where
  "source_tracks lib playlist_id =
     (if playlist_id = ''liked_songs'' then
        (case saved_tracks lib of Inl e \<Rightarrow> [] | Inr liked_tracks \<Rightarrow> liked_tracks)
      else page_tracks (playlist_pages lib playlist_id))"

text \<open>What the paginator is to return: the whole collection, or its first \<open>limit\<close>
  items; and the least number of pages of 50 that hold \<open>n\<close> items (one page is always
  fetched).\<close>

definition limited_prefix :: "int option \<Rightarrow> 'a list \<Rightarrow> 'a list" where
  "limited_prefix limit lib = (case limit of None \<Rightarrow> lib | Some l \<Rightarrow> take (nat l) lib)"

definition pages_needed :: "nat \<Rightarrow> nat" where
  "pages_needed n = max 1 ((n + 49) div 50)"

text \<open>Concrete inputs for the examples: a service on which nothing has happened yet, with
  a failure schedule, and a track of one artist.\<close>

definition no_failure :: "nat \<Rightarrow> bool" where
  "no_failure n = False"

definition fail_at :: "nat \<Rightarrow> nat \<Rightarrow> bool" where
  "fail_at k n = (n = k)"

definition fresh_remote :: "(nat \<Rightarrow> bool) \<Rightarrow> remote" where
  "fresh_remote schedule = \<lparr>fails = schedule, calls = [], playlists = []\<rparr>"

definition mk_track :: "string \<Rightarrow> string \<Rightarrow> string option \<Rightarrow> int option \<Rightarrow> track" where
  "mk_track i a u y =
     \<lparr>tid = i, tname = i, artists = [\<lparr>aid = a, aname = a\<rparr>], uri = u, release_year = y\<rparr>"

text \<open>A catalog that knows one artist and the features of one track.\<close>

definition example_catalog :: catalog where
  "example_catalog =
     \<lparr>artist = (\<lambda>i. if i = ''a1'' then Some \<lparr>genres = [''rock'']\<rparr> else None),
      audio_features = (\<lambda>i. if i = ''t1''
         then Some \<lparr>fid = ''t1'', valence = 0.5, energy = 0.2, danceability = 0.3,
                     acousticness = 0.9, tempo = 110\<rparr>
         else None)\<rparr>"

text \<open>A library with two liked tracks, a playlist of two pages, and no other playlist that
  can be read.\<close>

definition example_library :: library where
  "example_library =
     \<lparr>saved_tracks = Inr [mk_track ''t1'' ''a1'' None None, mk_track ''t3'' ''a1'' None None],
      playlist_pages = (\<lambda>i. if i = ''p1''
         then Page [Some (mk_track ''t1'' ''a1'' None None), None,
                    Some (mk_track ''t2'' ''a1'' None None)]
                (Page [Some (mk_track ''t1'' ''a1'' None None)] End)
         else Fail)\<rparr>"

section \<open>The playlist manager: helper lemmas\<close>

lemma add_items_from_fails:
  assumes "i + batch_size * k < length us"
    and "\<forall>j<k. \<not> fails r (length (calls r) + j)"
    and "fails r (length (calls r) + k)"
    and "p < length (playlists r)"
  shows "add_items_from r p us i =
     (False, r\<lparr>calls := calls r @ map (\<lambda>j. AddItems p (take batch_size (drop (i + batch_size * j) us))) [0..<Suc k],
               playlists := (playlists r)[p := playlists r ! p @ take (batch_size * k) (drop i us)]\<rparr>)"
  using assms
proof (induction k arbitrary: r i)
  case 0
  then show ?case
    by (subst add_items_from.simps) (simp add: playlist_add_items_def)
next
  case (Suc k)
  let ?b = "take batch_size (drop i us)"
  let ?r1 = "r\<lparr>calls := calls r @ [AddItems p ?b],
               playlists := (playlists r)[p := playlists r ! p @ ?b]\<rparr>"
  from Suc.prems have ok: "\<not> fails r (length (calls r))" by force
  from Suc.prems have i: "i < length us" by simp
  have step: "add_items_from r p us i = add_items_from ?r1 p us (i + batch_size)"
    using ok i Suc.prems(4)
    by (subst add_items_from.simps) (simp add: playlist_add_items_def)
  have a1: "(i + batch_size) + batch_size * k < length us" using Suc.prems(1) by simp
  have a2: "\<forall>j<k. \<not> fails ?r1 (length (calls ?r1) + j)"
    using Suc.prems(2) by (auto simp: less_Suc_eq_0_disj)
  have a3: "fails ?r1 (length (calls ?r1) + k)" using Suc.prems(3) by simp
  have a4: "p < length (playlists ?r1)" using Suc.prems(4) by simp
  have m: "map (\<lambda>j. AddItems p (take batch_size (drop (i + batch_size * j) us))) [0..<Suc (Suc k)]
      = AddItems p ?b # map (\<lambda>j. AddItems p (take batch_size (drop (i + batch_size + batch_size * j) us))) [0..<Suc k]"
    by (subst upt_conv_Cons, simp)
       (simp add: map_Suc_upt[symmetric] del: upt_Suc add: add.assoc)
  have t: "take (batch_size * Suc k) (drop i us) = ?b @ take (batch_size * k) (drop (i + batch_size) us)"
    by (simp add: take_add add.commute)
  show ?case
    unfolding step Suc.IH[OF a1 a2 a3 a4] m t using Suc.prems(4) by simp
qed


lemma add_items_from_frame:
  "add_items_from r p us i = (ok, r') \<Longrightarrow>
     fails r' = fails r \<and> create_calls r' = create_calls r \<and> length (playlists r') = length (playlists r)
     \<and> length (calls r) \<le> length (calls r')"
proof (induction r p us i arbitrary: ok r' rule: add_items_from.induct)
  case (1 r p us i)
  show ?case
  proof (cases "i < length us")
    case False
    with "1.prems" show ?thesis by (subst (asm) add_items_from.simps) simp
  next
    case True
    obtain res r1 where pa: "playlist_add_items r p (take batch_size (drop i us)) = (res, r1)"
      by (cases "playlist_add_items r p (take batch_size (drop i us))")
    have fr: "fails r1 = fails r \<and> create_calls r1 = create_calls r \<and>
              length (playlists r1) = length (playlists r) \<and> length (calls r) \<le> length (calls r1)"
      using pa by (auto simp: playlist_add_items_def create_calls_def Let_def split: if_splits)
    show ?thesis
    proof (cases res)
      case (Inl e)
      with "1.prems" True pa fr show ?thesis
        by (subst (asm) add_items_from.simps) auto
    next
      case (Inr u)
      with "1.prems" True pa have "add_items_from r1 p us (i + batch_size) = (ok, r')"
        by (subst (asm) add_items_from.simps) simp
      from "1.IH"[OF True pa[symmetric] _ this] Inr fr show ?thesis by auto
    qed
  qed
qed

lemma add_tracks_frame:
  "add_tracks_to_playlist r p us = (ok, r') \<Longrightarrow>
     fails r' = fails r \<and> create_calls r' = create_calls r \<and> length (playlists r') = length (playlists r)
     \<and> length (calls r) \<le> length (calls r')"
  unfolding add_tracks_to_playlist_def
  by (cases "us = []") (auto dest: add_items_from_frame)

lemma create_and_fill_frame:
  assumes "create_and_fill n d pub k ts (c, r) = (c', r')"
  shows "fails r' = fails r"
    and "create_calls r' = create_calls r @ [CreatePlaylist n d pub]"
    and "fails r (length (calls r)) \<Longrightarrow> c' = c"
    and "\<not> fails r (length (calls r)) \<Longrightarrow> c' = AList.update k (length (playlists r)) c"
    and "map_of c' x = (if x = k \<and> \<not> fails r (length (calls r)) then Some (length (playlists r)) else map_of c x)"
proof -
  let ?r1 = "r\<lparr>calls := calls r @ [CreatePlaylist n d pub]\<rparr>"
  show "fails r' = fails r" "create_calls r' = create_calls r @ [CreatePlaylist n d pub]"
       "fails r (length (calls r)) \<Longrightarrow> c' = c"
       "\<not> fails r (length (calls r)) \<Longrightarrow> c' = AList.update k (length (playlists r)) c"
    using assms
    by (auto simp: create_and_fill_def create_playlist_def user_playlist_create_def Let_def
          create_calls_def split: if_splits prod.splits dest!: add_tracks_frame)
  then show "map_of c' x = (if x = k \<and> \<not> fails r (length (calls r)) then Some (length (playlists r)) else map_of c x)"
    by (cases "fails r (length (calls r))") (auto simp: update_conv')
qed


lemma steps_frame:
  assumes step: "\<And>st b. step st b = (if skip b then st else create_and_fill (nm b) (ds b) pub (fst b) (snd b) st)"
  shows "fails (snd (foldl step (c, r) bs)) = fails r \<and>
         create_calls (snd (foldl step (c, r) bs)) =
           create_calls r @ map (\<lambda>b. CreatePlaylist (nm b) (ds b) pub) (filter (\<lambda>b. \<not> skip b) bs)"
proof (induction bs arbitrary: c r)
  case Nil
  show ?case by simp
next
  case (Cons b bs)
  show ?case
  proof (cases "skip b")
    case True
    then show ?thesis using Cons.IH[of c r] by (simp add: step)
  next
    case False
    obtain c' r' where cf: "create_and_fill (nm b) (ds b) pub (fst b) (snd b) (c, r) = (c', r')"
      by (cases "create_and_fill (nm b) (ds b) pub (fst b) (snd b) (c, r)")
    from create_and_fill_frame(1,2)[OF cf] Cons.IH[of c' r'] False cf
    show ?thesis by (simp add: step)
  qed
qed

lemma steps_keep:
  assumes step: "\<And>st b. step st b = (if skip b then st else create_and_fill (nm b) (ds b) pub (fst b) (snd b) st)"
    and "k \<notin> fst ` set bs"
  shows "map_of (fst (foldl step (c, r) bs)) k = map_of c k"
  using assms(2)
proof (induction bs arbitrary: c r)
  case Nil
  show ?case by simp
next
  case (Cons b bs)
  show ?case
  proof (cases "skip b")
    case True
    then show ?thesis using Cons.IH[of c r] Cons.prems by (simp add: step)
  next
    case False
    obtain c' r' where cf: "create_and_fill (nm b) (ds b) pub (fst b) (snd b) (c, r) = (c', r')"
      by (cases "create_and_fill (nm b) (ds b) pub (fst b) (snd b) (c, r)")
    from create_and_fill_frame(5)[OF cf, of k] Cons.IH[of c' r'] Cons.prems False cf
    show ?thesis by (simp add: step)
  qed
qed

lemma genre_step_eq:
  "genre_step prefix public st b =
     (if snd b = [] then st
      else create_and_fill (genre_playlist_name prefix (fst b)) (genre_description (fst b) (snd b))
             public (fst b) (snd b) st)"
  by (cases b) (simp add: genre_step_def)

lemma mood_step_eq:
  "mood_step prefix public st b =
     (if snd b = [] then st
      else create_and_fill (mood_playlist_name prefix (fst b)) (mood_description (fst b) (snd b))
             public (fst b) (snd b) st)"
  by (cases b) (simp add: mood_step_def)

lemma artist_step_eq:
  "artist_step prefix public st b =
     (if False then st
      else create_and_fill (artist_playlist_name prefix (fst b)) (artist_description (fst b) (snd b))
             public (fst b) (snd b) st)"
  by (cases b) (simp add: artist_step_def)

lemma decade_step_eq:
  "decade_step prefix public st b =
     (if False then st
      else create_and_fill (decade_playlist_name prefix (fst b)) (decade_description (fst b) (snd b))
             public (fst b) (snd b) st)"
  by (cases b) (simp add: decade_step_def)

lemma year_step_eq:
  "year_step prefix public st b =
     (if snd b = [] \<or> fst b = YearStr ''Unknown'' then st
      else create_and_fill (year_playlist_name prefix (fst b)) (year_description (fst b) (snd b))
             public (fst b) (snd b) st)"
  by (cases b) (simp add: year_step_def)

lemma genre_creates:
  "create_calls (snd (create_genre_playlists r genre_map prefix public)) =
     create_calls r @
     map (\<lambda>b. CreatePlaylist (genre_playlist_name prefix (fst b)) (genre_description (fst b) (snd b)) public)
       (filter (\<lambda>b. snd b \<noteq> []) genre_map)"
  unfolding create_genre_playlists_def
  using steps_frame[of "genre_step prefix public" "\<lambda>b. snd b = []", OF genre_step_eq]
  by simp


lemma steps_absent:
  assumes step: "\<And>st b. step st b = (if skip b then st else create_and_fill (nm b) (ds b) pub (fst b) (snd b) st)"
    and "k \<notin> fst ` set bs"
  shows "map_of (fst (foldl step ([], r) bs)) k = None"
  using steps_keep[of step skip nm ds pub k bs "[]" r, OF step assms(2)] by simp

lemma mood_creates:
  "create_calls (snd (create_mood_playlists r mood_map prefix public)) =
     create_calls r @
     map (\<lambda>b. CreatePlaylist (mood_playlist_name prefix (fst b)) (mood_description (fst b) (snd b)) public)
       (filter (\<lambda>b. snd b \<noteq> []) mood_map)"
  unfolding create_mood_playlists_def
  using steps_frame[of "mood_step prefix public" "\<lambda>b. snd b = []", OF mood_step_eq]
  by simp

lemma artist_creates:
  "create_calls (snd (create_artist_playlists r artist_map prefix public min_tracks)) =
     create_calls r @
     map (\<lambda>b. CreatePlaylist (artist_playlist_name prefix (fst b)) (artist_description (fst b) (snd b)) public)
       (filter (\<lambda>b. min_tracks \<le> int (length (snd b))) artist_map)"
  unfolding create_artist_playlists_def
  using steps_frame[of "artist_step prefix public" "\<lambda>b. False", OF artist_step_eq]
  by (simp add: case_prod_unfold)

lemma year_creates:
  "create_calls (snd (create_year_playlists r year_map prefix public)) =
     create_calls r @
     map (\<lambda>b. CreatePlaylist (year_playlist_name prefix (fst b)) (year_description (fst b) (snd b)) public)
       (filter (\<lambda>b. snd b \<noteq> [] \<and> fst b \<noteq> YearStr ''Unknown'') year_map)"
  unfolding create_year_playlists_def
  using steps_frame[of "year_step prefix public" "\<lambda>b. snd b = [] \<or> fst b = YearStr ''Unknown''",
          OF year_step_eq]
  by simp

lemma decade_creates:
  "create_calls (snd (create_decade_playlists r tracks prefix public)) =
     create_calls r @
     map (\<lambda>b. CreatePlaylist (decade_playlist_name prefix (fst b)) (decade_description (fst b) (snd b)) public)
       (decade_map_of tracks)"
  unfolding create_decade_playlists_def
  using steps_frame[of "decade_step prefix public" "\<lambda>b. False", OF decade_step_eq]
  by simp

lemma dict_append_keys:
  "map fst (dict_append k v m) = (if k \<in> fst ` set m then map fst m else map fst m @ [k])"
  by (simp add: dict_append_def update_keys)

lemma dict_append_keyset: "fst ` set (dict_append k v m) = insert k (fst ` set m)"
  using arg_cong[where f = set, OF dict_append_keys[of k v m]]
  by (auto split: if_splits)

lemma dict_append_nonempty:
  "\<forall>b \<in> set m. snd b \<noteq> [] \<Longrightarrow> \<forall>b \<in> set (dict_append k v m). snd b \<noteq> []"
  by (induction m) (auto simp: dict_append_def)

lemma decade_group_keys:
  "map fst (foldl decade_group m tracks) =
     map fst m @ first_seen_by (\<lambda>d. d) (filter (\<lambda>d. d \<notin> fst ` set m) (track_decades tracks))"
proof (induction tracks arbitrary: m)
  case Nil
  show ?case by (simp add: track_decades_def)
next
  case (Cons t ts)
  have td: "track_decades (t # ts) =
     (case release_year t of None \<Rightarrow> [] | Some year \<Rightarrow> if year = 0 then [] else [(year div 10) * 10])
       @ track_decades ts"
    by (simp add: track_decades_def)
  show ?case
  proof (cases "release_year t")
    case None
    then show ?thesis using Cons.IH[of m] by (simp add: td decade_group_def)
  next
    case (Some y)
    show ?thesis
    proof (cases "y = 0")
      case True
      then show ?thesis using Some Cons.IH[of m] by (simp add: td decade_group_def)
    next
      case False
      let ?d = "(y div 10) * 10"
      have dg: "decade_group m t = dict_append ?d t m" using Some False by (simp add: decade_group_def)
      show ?thesis
      proof (cases "?d \<in> fst ` set m")
        case True
        then have "fst ` set (dict_append ?d t m) = fst ` set m"
          by (auto simp: dict_append_keyset)
        with True show ?thesis using Some False Cons.IH[of "dict_append ?d t m"] dg
          by (simp add: td dict_append_keys)
      next
        case nin: False
        have "fst ` set (dict_append ?d t m) = insert ?d (fst ` set m)"
          by (rule dict_append_keyset)
        then have eq: "(\<lambda>d. d \<notin> fst ` set (dict_append ?d t m)) = (\<lambda>d. d \<noteq> ?d \<and> d \<notin> fst ` set m)"
          by auto
        show ?thesis using Some False nin Cons.IH[of "dict_append ?d t m"] dg
          by (simp add: td dict_append_keys eq conj_commute)
      qed
    qed
  qed
qed

lemma decade_group_nonempty:
  "\<forall>b \<in> set m. snd b \<noteq> [] \<Longrightarrow> \<forall>b \<in> set (foldl decade_group m tracks). snd b \<noteq> []"
proof (induction tracks arbitrary: m)
  case Nil
  then show ?case by simp
next
  case (Cons t ts)
  have "\<forall>b \<in> set (decade_group m t). snd b \<noteq> []"
    using Cons.prems dict_append_nonempty[of m] by (auto simp: decade_group_def split: option.splits)
  from Cons.IH[OF this] show ?case by simp
qed

text \<open>Evaluation of the concrete runs below.\<close>

lemmas run_defs = create_genre_playlists_def genre_step_def create_and_fill_def create_playlist_def
  user_playlist_create_def add_tracks_to_playlist_def add_items_from.simps playlist_add_items_def
  track_uris_def has_uri_def mk_track_def fresh_remote_def fail_at_def no_failure_def batch_size_def
  genre_playlist_name_def genre_description_def create_calls_def

lemma title_rock: "title ''rock'' = ''Rock''" by code_simp

lemma str_nat_1: "str_nat (Suc 0) = ''1''" by code_simp

lemma str_int_1990: "str_int 1990 = ''1990''" by code_simp

lemma str_int_2000: "str_int 2000 = ''2000''" by code_simp

section \<open>The playlist manager: claims\<close>

text \<open>
  C9. Batch writes are not rolled back. When the URIs of a bucket are written in batches
  of at most 100 and batch \<open>k + 1\<close> raises after batches \<open>1..k\<close> went through, then
  \<^verbatim>\<open>add_tracks_to_playlist\<close> returns False, the log holds exactly the \<open>k + 1\<close> write
  calls issued so far (none for a later batch), and the playlist keeps the first
  \<open>100 * k\<close> URIs.
\<close>

theorem batch_writes_not_rolled_back:
  assumes "batch_size * k < length uris"
    and "\<forall>j<k. \<not> fails r (length (calls r) + j)"
    and "fails r (length (calls r) + k)"
    and "playlist_id < length (playlists r)"
  shows "add_tracks_to_playlist r playlist_id uris =
     (False,
      r\<lparr>calls := calls r @
            map (\<lambda>j. AddItems playlist_id (take batch_size (drop (batch_size * j) uris)))
              [0..<Suc k],
        playlists := (playlists r)
            [playlist_id := playlists r ! playlist_id @ take (batch_size * k) uris]\<rparr>)"
proof -
  from assms(1) have ne: "uris \<noteq> []" by auto
  from assms(1) have "0 + batch_size * k < length uris" by simp
  from add_items_from_fails[OF this assms(2,3,4)] ne
  show ?thesis by (simp add: add_tracks_to_playlist_def)
qed

theorem batch_writes_not_rolled_back_witness:
  "batch_size * 1 < length (replicate 150 ''u'')
   \<and> \<not> fail_at 1 0 \<and> fail_at 1 1
   \<and> add_tracks_to_playlist \<lparr>fails = fail_at 1, calls = [], playlists = [[]]\<rparr> 0 (replicate 150 ''u'') =
     (False, \<lparr>fails = fail_at 1,
              calls = [AddItems 0 (replicate 100 ''u''), AddItems 0 (replicate 50 ''u'')],
              playlists = [replicate 100 ''u'']\<rparr>)"
  using batch_writes_not_rolled_back[of 1 "replicate 150 ''u''"
          "\<lparr>fails = fail_at 1, calls = [], playlists = [[]]\<rparr>" 0]
  by (simp add: fail_at_def batch_size_def)

text \<open>
  C1, as the code has it. Whether a non-empty bucket's label is in the map returned by
  \<^verbatim>\<open>create_genre_playlists\<close> depends on its playlist-creation call alone: the label maps
  to the new playlist when that call went through, whatever happens to the batch writes
  that follow, and is absent when that call raised. Every non-empty bucket, before and
  after, gets its creation call.
\<close>

theorem created_bucket_stays_in_map:
  assumes "foldl (genre_step prefix public) ([], r) before = (created, r1)"
    and "tracks \<noteq> []"
    and "genre \<notin> fst ` set before"
    and "genre \<notin> fst ` set after"
  shows "map_of (fst (create_genre_playlists r (before @ (genre, tracks) # after) prefix public)) genre
           = (if fails r1 (length (calls r1)) then None else Some (length (playlists r1)))
       \<and> create_calls (snd (create_genre_playlists r (before @ (genre, tracks) # after) prefix public))
           = create_calls r @
             map (\<lambda>b. CreatePlaylist (genre_playlist_name prefix (fst b))
                         (genre_description (fst b) (snd b)) public)
               (filter (\<lambda>b. snd b \<noteq> []) (before @ (genre, tracks) # after))"
proof -
  obtain c2 r2 where cf: "create_and_fill (genre_playlist_name prefix genre)
      (genre_description genre tracks) public genre tracks (created, r1) = (c2, r2)"
    by (cases "create_and_fill (genre_playlist_name prefix genre)
      (genre_description genre tracks) public genre tracks (created, r1)")
  have none: "map_of created genre = None"
    using steps_absent[of "genre_step prefix public" "\<lambda>b. snd b = []", OF genre_step_eq assms(3), of r]
      assms(1) by simp
  have "create_genre_playlists r (before @ (genre, tracks) # after) prefix public
          = foldl (genre_step prefix public) (c2, r2) after"
    using assms(1,2) cf by (simp add: create_genre_playlists_def genre_step_def)
  moreover have "map_of (fst (foldl (genre_step prefix public) (c2, r2) after)) genre = map_of c2 genre"
    by (rule steps_keep[of "genre_step prefix public" "\<lambda>b. snd b = []", OF genre_step_eq assms(4)])
  moreover have "map_of c2 genre = (if fails r1 (length (calls r1)) then None else Some (length (playlists r1)))"
    using create_and_fill_frame(5)[OF cf, of genre] none by simp
  ultimately have "map_of (fst (create_genre_playlists r (before @ (genre, tracks) # after) prefix public)) genre
           = (if fails r1 (length (calls r1)) then None else Some (length (playlists r1)))"
    by simp
  then show ?thesis by (simp only: genre_creates simp_thms)
qed

theorem created_bucket_stays_in_map_witness:
  "foldl (genre_step ''SpotifySort'' False) ([], fresh_remote (fail_at 1)) [] = ([], fresh_remote (fail_at 1))
   \<and> [mk_track ''t1'' ''a1'' (Some ''spotify:track:1'') None] \<noteq> []
   \<and> fst (add_tracks_to_playlist
        \<lparr>fails = fail_at 1,
         calls = [CreatePlaylist ''SpotifySort - Rock'' ''Auto-generated playlist containing 1 rock tracks'' False],
         playlists = [[]]\<rparr> 0 [''spotify:track:1'']) = False
   \<and> map_of (fst (create_genre_playlists (fresh_remote (fail_at 1))
          [(''rock'', [mk_track ''t1'' ''a1'' (Some ''spotify:track:1'') None]),
           (''jazz'', [mk_track ''t2'' ''a2'' (Some ''spotify:track:2'') None])]
          ''SpotifySort'' False)) ''rock'' = Some 0"
  using created_bucket_stays_in_map[of "''SpotifySort''" False "fresh_remote (fail_at 1)" "[]" "[]"
      "fresh_remote (fail_at 1)" "[mk_track ''t1'' ''a1'' (Some ''spotify:track:1'') None]" "''rock''"
      "[(''jazz'', [mk_track ''t2'' ''a2'' (Some ''spotify:track:2'') None])]"]
  by (simp add: run_defs)

text \<open>The claim as the specification words it fails: the only write call of the bucket
  raises, the playlist stays empty, and the label is in the returned map all the same.\<close>

theorem write_failure_excludes_bucket_counterexample:
  "create_genre_playlists (fresh_remote (fail_at 1))
       [(''rock'', [mk_track ''t1'' ''a1'' (Some ''spotify:track:1'') None])] ''SpotifySort'' False
     = ([(''rock'', 0)],
        \<lparr>fails = fail_at 1,
         calls = [CreatePlaylist ''SpotifySort - Rock'' ''Auto-generated playlist containing 1 rock tracks'' False,
                  AddItems 0 [''spotify:track:1'']],
         playlists = [[]]\<rparr>)
   \<and> playlist_add_items
        \<lparr>fails = fail_at 1,
         calls = [CreatePlaylist ''SpotifySort - Rock'' ''Auto-generated playlist containing 1 rock tracks'' False],
         playlists = [[]]\<rparr> 0 [''spotify:track:1'']
     = (Inl RemoteError,
        \<lparr>fails = fail_at 1,
         calls = [CreatePlaylist ''SpotifySort - Rock'' ''Auto-generated playlist containing 1 rock tracks'' False,
                  AddItems 0 [''spotify:track:1'']],
         playlists = [[]]\<rparr>)"
  by (simp add: run_defs title_rock str_nat_1)

text \<open>
  C2, as the code has it. A bucket is skipped only when its track list is empty. A bucket
  whose track list is non-empty but holds no writable track still gets its
  playlist-creation call; no write call follows, so when the creation goes through an
  empty remote playlist exists and the label is recorded in the returned map.
\<close>

theorem unwritable_bucket_still_created:
  assumes "foldl (genre_step prefix public) ([], r) before = (created, r1)"
    and "tracks \<noteq> []"
    and "track_uris tracks = []"
  shows "create_genre_playlists r (before @ (genre, tracks) # after) prefix public =
           foldl (genre_step prefix public)
             (if fails r1 (length (calls r1))
              then (created,
                    r1\<lparr>calls := calls r1 @ [CreatePlaylist (genre_playlist_name prefix genre)
                                                (genre_description genre tracks) public]\<rparr>)
              else (AList.update genre (length (playlists r1)) created,
                    r1\<lparr>calls := calls r1 @ [CreatePlaylist (genre_playlist_name prefix genre)
                                                (genre_description genre tracks) public],
                       playlists := playlists r1 @ [[]]\<rparr>))
             after
       \<and> create_genre_playlists r (before @ (genre, []) # after) prefix public =
           create_genre_playlists r (before @ after) prefix public"
  using assms
  by (simp add: create_genre_playlists_def genre_step_def create_and_fill_def create_playlist_def
        user_playlist_create_def add_tracks_to_playlist_def Let_def)

theorem unwritable_bucket_still_created_witness:
  "foldl (genre_step ''SpotifySort'' False) ([], fresh_remote no_failure) [] = ([], fresh_remote no_failure)
   \<and> [mk_track ''t1'' ''a1'' None None] \<noteq> []
   \<and> track_uris [mk_track ''t1'' ''a1'' None None] = []
   \<and> create_genre_playlists (fresh_remote no_failure)
         [(''rock'', [mk_track ''t1'' ''a1'' None None])] ''SpotifySort'' False
       = ([(''rock'', 0)],
          \<lparr>fails = no_failure,
           calls = [CreatePlaylist ''SpotifySort - Rock'' ''Auto-generated playlist containing 1 rock tracks'' False],
           playlists = [[]]\<rparr>)"
  using unwritable_bucket_still_created[of "''SpotifySort''" False "fresh_remote no_failure" "[]" "[]"
      "fresh_remote no_failure" "[mk_track ''t1'' ''a1'' None None]" "''rock''" "[]"]
  by (simp add: track_uris_def has_uri_def mk_track_def fresh_remote_def no_failure_def
        genre_playlist_name_def genre_description_def title_rock str_nat_1)

text \<open>The claim as the specification words it fails: one track without URI, one
  creation call, one empty playlist.\<close>

theorem unwritable_bucket_skipped_counterexample:
  "[mk_track ''t1'' ''a1'' None None] \<noteq> []
   \<and> track_uris [mk_track ''t1'' ''a1'' None None] = []
   \<and> create_calls (snd (create_genre_playlists (fresh_remote no_failure)
         [(''rock'', [mk_track ''t1'' ''a1'' None None])] ''SpotifySort'' False))
       = [CreatePlaylist ''SpotifySort - Rock'' ''Auto-generated playlist containing 1 rock tracks'' False]
   \<and> playlists (snd (create_genre_playlists (fresh_remote no_failure)
         [(''rock'', [mk_track ''t1'' ''a1'' None None])] ''SpotifySort'' False)) = [[]]"
  by (simp add: run_defs title_rock str_nat_1)

text \<open>
  C3, as the code has it. The playlist-creation calls of a run are, in order: for genre
  and mood, one per bucket with a non-empty track list; for artist, one per bucket with at
  least \<^verbatim>\<open>min_tracks\<close> tracks (5 by default), so that smaller non-empty buckets get none;
  for decade, one per bucket of the decade dictionary, none of which is empty; for year,
  one per non-empty bucket whose key is not the string Unknown.
\<close>

theorem creation_attempts_per_mode:
  "create_calls (snd (create_genre_playlists r genre_map prefix public)) =
     create_calls r @
     map (\<lambda>b. CreatePlaylist (genre_playlist_name prefix (fst b)) (genre_description (fst b) (snd b)) public)
       (filter (\<lambda>b. snd b \<noteq> []) genre_map)
   \<and> create_calls (snd (create_mood_playlists r mood_map prefix public)) =
     create_calls r @
     map (\<lambda>b. CreatePlaylist (mood_playlist_name prefix (fst b)) (mood_description (fst b) (snd b)) public)
       (filter (\<lambda>b. snd b \<noteq> []) mood_map)
   \<and> create_calls (snd (create_artist_playlists r artist_map prefix public min_tracks)) =
     create_calls r @
     map (\<lambda>b. CreatePlaylist (artist_playlist_name prefix (fst b)) (artist_description (fst b) (snd b)) public)
       (filter (\<lambda>b. min_tracks \<le> int (length (snd b))) artist_map)
   \<and> create_calls (snd (create_decade_playlists r tracks prefix public)) =
     create_calls r @
     map (\<lambda>b. CreatePlaylist (decade_playlist_name prefix (fst b)) (decade_description (fst b) (snd b)) public)
       (decade_map_of tracks)
   \<and> [] \<notin> snd ` set (decade_map_of tracks)
   \<and> create_calls (snd (create_year_playlists r year_map prefix public)) =
     create_calls r @
     map (\<lambda>b. CreatePlaylist (year_playlist_name prefix (fst b)) (year_description (fst b) (snd b)) public)
       (filter (\<lambda>b. snd b \<noteq> [] \<and> fst b \<noteq> YearStr ''Unknown'') year_map)"
proof -
  have "[] \<notin> snd ` set (decade_map_of tracks)"
    using decade_group_nonempty[of "[]" tracks] by (force simp: decade_map_of_def)
  then show ?thesis
    by (simp only: genre_creates mood_creates artist_creates decade_creates year_creates simp_thms)
qed

text \<open>The claim as the specification words it fails in the by-artist mode: a bucket of one
  track, under the default threshold of five, causes no call at all.\<close>

theorem small_artist_bucket_counterexample:
  "[mk_track ''t1'' ''Queen'' (Some ''spotify:track:1'') None] \<noteq> []
   \<and> create_artist_playlists (fresh_remote no_failure)
        [(''Queen'', [mk_track ''t1'' ''Queen'' (Some ''spotify:track:1'') None])] ''SpotifySort'' False 5
     = ([], \<lparr>fails = no_failure, calls = [], playlists = []\<rparr>)"
  by (simp add: create_artist_playlists_def fresh_remote_def)

text \<open>
  C4, as the code has it. \<^verbatim>\<open>create_decade_playlists\<close> creates the decade playlists in
  the order in which the decades first occur in the track sequence (the insertion order
  of the decade dictionary); it does not sort them.
\<close>

theorem decade_order_is_first_seen:
  "create_calls (snd (create_decade_playlists r tracks prefix public)) =
     create_calls r @
     map (\<lambda>b. CreatePlaylist (decade_playlist_name prefix (fst b)) (decade_description (fst b) (snd b)) public)
       (decade_map_of tracks)
   \<and> map fst (decade_map_of tracks) = first_seen_by (\<lambda>d. d) (track_decades tracks)"
  using decade_group_keys[of "[]" tracks]
  by (simp add: decade_creates decade_map_of_def)

text \<open>The claim as the specification words it fails: a track of 2005 followed by a track
  of 1994 has the 2000s playlist created before the 1990s playlist.\<close>

theorem decade_ascending_counterexample:
  "create_calls (snd (create_decade_playlists (fresh_remote no_failure)
       [mk_track ''t1'' ''a1'' (Some ''spotify:track:1'') (Some 2005),
        mk_track ''t2'' ''a1'' (Some ''spotify:track:2'') (Some 1994)] ''SpotifySort'' False))
     = [CreatePlaylist ''SpotifySort - 2000s'' ''Music from the 2000s - 1 tracks'' False,
        CreatePlaylist ''SpotifySort - 1990s'' ''Music from the 1990s - 1 tracks'' False]
   \<and> map fst (fst (create_decade_playlists (fresh_remote no_failure)
       [mk_track ''t1'' ''a1'' (Some ''spotify:track:1'') (Some 2005),
        mk_track ''t2'' ''a1'' (Some ''spotify:track:2'') (Some 1994)] ''SpotifySort'' False))
     = [2000, 1990]"
  by (simp add: run_defs create_decade_playlists_def decade_map_of_def decade_group_def dict_append_def
        decade_step_def decade_playlist_name_def decade_description_def
        str_int_1990 str_int_2000 str_nat_1)

section \<open>The library analyzer: helper lemmas\<close>

lemma analyze_genres_lookups:
  "snd (analyze_genres_from cat (gm, lk) ts) =
     lk @ map primary_artist_id (takeWhile (\<lambda>t. artists t \<noteq> []) ts)"
proof (induction ts arbitrary: gm lk)
  case Nil
  show ?case by simp
next
  case (Cons t ts)
  show ?case
  proof (cases "artists t")
    case Nil
    then show ?thesis by simp
  next
    case (Cons a as)
    then show ?thesis
      using Cons.IH by (cases "artist cat (aid a)") (simp_all add: primary_artist_id_def Let_def)
  qed
qed

lemma dict_append_lookup:
  "map_of (dict_append k v m) k' =
     (if k' = k then Some ((case map_of m k of None \<Rightarrow> [] | Some vs \<Rightarrow> vs) @ [v]) else map_of m k')"
  by (simp add: dict_append_def update_conv')

lemma mood_classify_lookup:
  assumes "map_of m (mood_label M) = Some ts"
  shows "map_of (mood_classify fd m t) (mood_label M) =
           Some (ts @ (case fd (tid t) of None \<Rightarrow> [] | Some f \<Rightarrow> if mood_threshold M f then [t] else []))"
  using assms
  by (cases M; cases "fd (tid t)") (simp_all add: mood_classify_def Let_def dict_append_lookup)

lemma mood_classify_fold:
  assumes "map_of m (mood_label M) = Some ts"
  shows "map_of (foldl (mood_classify fd) m tracks) (mood_label M) =
           Some (ts @ filter (\<lambda>t. case fd (tid t) of None \<Rightarrow> False | Some f \<Rightarrow> mood_threshold M f) tracks)"
  using assms
proof (induction tracks arbitrary: m ts)
  case Nil
  then show ?case by simp
next
  case (Cons t tracks)
  from Cons.IH[OF mood_classify_lookup[OF Cons.prems, of fd t]]
  show ?case by (auto split: option.splits)
qed

lemma analyze_mood_bucket:
  "map_of (analyze_library_by_mood cat tracks) (mood_label M) =
     Some (filter (\<lambda>t. case resolved_features cat tracks (tid t) of None \<Rightarrow> False
                        | Some f \<Rightarrow> mood_threshold M f) tracks)"
proof -
  have "map_of [(''Happy'', []), (''Sad'', []), (''Energetic'', []), (''Calm'', []),
                      (''Party'', []), (''Chill'', [])] (mood_label M) = Some ([] :: track list)"
    by (cases M) simp_all
  from mood_classify_fold[OF this] show ?thesis
    by (simp add: analyze_library_by_mood_def resolved_features_def Let_def)
qed

lemma lower_labels:
  "lower ''Happy'' = ''happy''" "lower ''Sad'' = ''sad''" "lower ''Energetic'' = ''energetic''"
  "lower ''Calm'' = ''calm''" "lower ''Party'' = ''party''" "lower ''Chill'' = ''chill''"
  by code_simp+

lemma mood_ok_threshold:
  assumes "M \<noteq> Chill" and "lower mood_name = lower (mood_label M)"
  shows "mood_ok fd mood_name t = (case fd (tid t) of None \<Rightarrow> False | Some f \<Rightarrow> mood_threshold M f)"
  using assms
  by (cases M; cases "fd (tid t)") (simp_all add: mood_ok_def Let_def lower_labels)

lemma filter_tracks_mood_only:
  "mood_name \<noteq> [] \<Longrightarrow> filter_tracks cat tracks None (Some mood_name) None None None =
     filter (mood_ok (resolved_features cat tracks) mood_name) tracks"
  by (simp add: filter_tracks_def truthy_int_def truthy_list_def resolved_features_def Let_def)

lemma lower_eq_Nil: "lower s = [] \<longleftrightarrow> s = []"
  by (simp add: lower_def)

lemma features_t1:
  "resolved_features example_catalog [mk_track ''t1'' ''a1'' (Some ''spotify:track:1'') None] ''t1'' =
     Some \<lparr>fid = ''t1'', valence = 0.5, energy = 0.2, danceability = 0.3,
           acousticness = 0.9, tempo = 110\<rparr>"
  by (simp add: resolved_features_def get_audio_features_def audio_features_from.simps
        feature_dict_def example_catalog_def mk_track_def List.map_filter_simps)

section \<open>The library analyzer: claims\<close>

text \<open>
  C5, as the code has it. \<^verbatim>\<open>analyze_library_by_genre\<close> looks the primary artist up once
  per track, in track order, without remembering earlier answers: the ids looked up are
  the primary-artist ids of the tracks (up to the first track without artist, where the
  run ends with IndexError), so on a sequence in which every track has an artist the
  number of lookups is the number of tracks.
\<close>

theorem one_lookup_per_track:
  "snd (analyze_library_by_genre cat tracks) =
     map primary_artist_id (takeWhile (\<lambda>t. artists t \<noteq> []) tracks)
   \<and> (list_all (\<lambda>t. artists t \<noteq> []) tracks \<longrightarrow>
        length (snd (analyze_library_by_genre cat tracks)) = length tracks)"
proof -
  have eq: "snd (analyze_library_by_genre cat tracks) =
     map primary_artist_id (takeWhile (\<lambda>t. artists t \<noteq> []) tracks)"
    using analyze_genres_lookups[of cat "[]" "[]" tracks] by (simp add: analyze_library_by_genre_def)
  have "list_all (\<lambda>t. artists t \<noteq> []) tracks \<longrightarrow>
          length (takeWhile (\<lambda>t. artists t \<noteq> []) tracks) = length tracks"
    by (induction tracks) simp_all
  then show ?thesis unfolding eq by simp
qed

theorem one_lookup_per_track_witness:
  "list_all (\<lambda>t. artists t \<noteq> [])
     [mk_track ''t1'' ''a1'' (Some ''spotify:track:1'') None,
      mk_track ''t2'' ''a1'' (Some ''spotify:track:2'') None]
   \<and> length (snd (analyze_library_by_genre example_catalog
        [mk_track ''t1'' ''a1'' (Some ''spotify:track:1'') None,
         mk_track ''t2'' ''a1'' (Some ''spotify:track:2'') None])) = 2"
  using one_lookup_per_track[of example_catalog
        "[mk_track ''t1'' ''a1'' (Some ''spotify:track:1'') None,
          mk_track ''t2'' ''a1'' (Some ''spotify:track:2'') None]"]
  by (simp add: mk_track_def)

text \<open>The claim as the specification words it fails: two tracks of one artist cause two
  lookups of the same id, while there is one distinct primary-artist id.\<close>

theorem lookups_per_distinct_artist_counterexample:
  "snd (analyze_library_by_genre example_catalog
        [mk_track ''t1'' ''a1'' (Some ''spotify:track:1'') None,
         mk_track ''t2'' ''a1'' (Some ''spotify:track:2'') None]) = [''a1'', ''a1'']
   \<and> card (set (map primary_artist_id
        [mk_track ''t1'' ''a1'' (Some ''spotify:track:1'') None,
         mk_track ''t2'' ''a1'' (Some ''spotify:track:2'') None])) = 1"
  by (simp add: analyze_library_by_genre_def mk_track_def example_catalog_def primary_artist_id_def
        dict_append_def Let_def)

text \<open>
  C6, as the code has it. For each of the five moods Happy, Sad, Energetic, Calm and
  Party, named in any letter case, the filter with the mood as its only predicate keeps
  exactly the tracks whose resolved features satisfy that mood's threshold predicate, and
  its result is the list that whole-library mood classification puts under that mood.
\<close>

theorem mood_filter_matches_classifier:
  assumes "M \<noteq> Chill" and "lower mood_name = lower (mood_label M)"
  shows "filter_tracks cat tracks None (Some mood_name) None None None =
           filter (\<lambda>t. case resolved_features cat tracks (tid t) of None \<Rightarrow> False
                        | Some f \<Rightarrow> mood_threshold M f) tracks
       \<and> map_of (analyze_library_by_mood cat tracks) (mood_label M) =
           Some (filter_tracks cat tracks None (Some mood_name) None None None)"
proof -
  have "lower (mood_label M) \<noteq> []" by (cases M) (simp_all add: lower_labels)
  with assms(2) have ne: "mood_name \<noteq> []" using lower_eq_Nil[of mood_name] by auto
  have "mood_ok (resolved_features cat tracks) mood_name =
          (\<lambda>t. case resolved_features cat tracks (tid t) of None \<Rightarrow> False
                | Some f \<Rightarrow> mood_threshold M f)"
    using mood_ok_threshold[OF assms] by auto
  then show ?thesis
    by (simp add: filter_tracks_mood_only[OF ne] analyze_mood_bucket)
qed

theorem mood_filter_matches_classifier_witness:
  "Sad \<noteq> Chill \<and> lower ''SAD'' = lower (mood_label Sad)
   \<and> filter_tracks example_catalog [mk_track ''t1'' ''a1'' (Some ''spotify:track:1'') None]
        None (Some ''SAD'') None None None = []
   \<and> map_of (analyze_library_by_mood example_catalog
        [mk_track ''t1'' ''a1'' (Some ''spotify:track:1'') None]) ''Sad'' = Some []"
proof -
  have l: "lower ''SAD'' = lower (mood_label Sad)" by code_simp
  have t: "tid (mk_track ''t1'' ''a1'' (Some ''spotify:track:1'') None) = ''t1''"
    by (simp add: mk_track_def)
  show ?thesis
    using mood_filter_matches_classifier[of Sad "''SAD''" example_catalog
        "[mk_track ''t1'' ''a1'' (Some ''spotify:track:1'') None]"] l
    by (simp add: features_t1 t)
qed

text \<open>The claim as the specification words it fails for Chill: a track whose features
  satisfy the Chill thresholds is in the classifier's Chill list and does not pass the
  filter for the mood Chill.\<close>

theorem chill_filter_counterexample:
  "map_of (analyze_library_by_mood example_catalog
        [mk_track ''t1'' ''a1'' (Some ''spotify:track:1'') None]) ''Chill''
     = Some [mk_track ''t1'' ''a1'' (Some ''spotify:track:1'') None]
   \<and> mood_threshold Chill \<lparr>fid = ''t1'', valence = 0.5, energy = 0.2, danceability = 0.3,
           acousticness = 0.9, tempo = 110\<rparr>
   \<and> resolved_features example_catalog [mk_track ''t1'' ''a1'' (Some ''spotify:track:1'') None] ''t1'' =
     Some \<lparr>fid = ''t1'', valence = 0.5, energy = 0.2, danceability = 0.3,
           acousticness = 0.9, tempo = 110\<rparr>
   \<and> filter_tracks example_catalog [mk_track ''t1'' ''a1'' (Some ''spotify:track:1'') None]
        None (Some ''Chill'') None None None = []"
proof -
  have t: "tid (mk_track ''t1'' ''a1'' (Some ''spotify:track:1'') None) = ''t1''"
    by (simp add: mk_track_def)
  have a: "map_of (analyze_library_by_mood example_catalog
        [mk_track ''t1'' ''a1'' (Some ''spotify:track:1'') None]) (mood_label Chill)
     = Some [mk_track ''t1'' ''a1'' (Some ''spotify:track:1'') None]"
    by (simp only: analyze_mood_bucket) (simp add: features_t1 t)
  have f: "filter_tracks example_catalog [mk_track ''t1'' ''a1'' (Some ''spotify:track:1'') None]
        None (Some ''Chill'') None None None = []"
    by (simp add: filter_tracks_mood_only features_t1 t mood_ok_def lower_labels)
  show ?thesis using a f by (simp add: features_t1)
qed

text \<open>
  C10, as the code has it. Whenever at least one year-range bound is supplied and is not
  0 (the filter tests the bounds for truth, so None and 0 both count as absent), every
  track with an absent release year is excluded from the output, whatever the other
  predicates are.
\<close>

theorem missing_year_fails_year_filter:
  assumes "truthy_int year_from \<or> truthy_int year_to" and "release_year t = None"
  shows "t \<notin> set (filter_tracks cat tracks genres_arg mood year_from year_to artists_arg)"
proof -
  have "\<not> year_ok year_from year_to t" using assms(2) by (simp add: year_ok_def truthy_int_def)
  then show ?thesis using assms(1)
    by (auto simp: filter_tracks_def Let_def)
qed

theorem missing_year_fails_year_filter_witness:
  "(truthy_int (Some 1990) \<or> truthy_int None)
   \<and> release_year (mk_track ''t1'' ''a1'' (Some ''spotify:track:1'') None) = None
   \<and> mk_track ''t1'' ''a1'' (Some ''spotify:track:1'') None \<notin>
       set (filter_tracks example_catalog [mk_track ''t1'' ''a1'' (Some ''spotify:track:1'') None]
              None None (Some 1990) None None)"
  using missing_year_fails_year_filter[of "Some 1990" None
      "mk_track ''t1'' ''a1'' (Some ''spotify:track:1'') None" example_catalog
      "[mk_track ''t1'' ''a1'' (Some ''spotify:track:1'') None]" None None None]
  by (simp add: truthy_int_def mk_track_def)

text \<open>The claim as the specification words it fails for a bound of 0: the year filter is
  not applied and the track without release year is returned.\<close>

theorem zero_year_bound_counterexample:
  "release_year (mk_track ''t1'' ''a1'' (Some ''spotify:track:1'') None) = None
   \<and> filter_tracks example_catalog [mk_track ''t1'' ''a1'' (Some ''spotify:track:1'') None]
        None None (Some 0) None None
     = [mk_track ''t1'' ''a1'' (Some ''spotify:track:1'') None]"
  by (simp add: filter_tracks_def truthy_int_def truthy_list_def mk_track_def)

section \<open>Tracks from several playlists: helper lemmas\<close>

lemma first_seen_by_snoc:
  "first_seen_by f (xs @ [t]) =
     (if f t \<in> f ` set xs then first_seen_by f xs else first_seen_by f xs @ [t])"
proof (induction f xs rule: first_seen_by.induct)
  case (1 f)
  show ?case by simp
next
  case (2 f x xs)
  show ?case
  proof (cases "f t = f x")
    case True
    then show ?thesis by simp
  next
    case False
    then have "(f t \<in> f ` set (filter (\<lambda>y. f y \<noteq> f x) xs)) = (f t \<in> f ` set xs)"
      by auto
    with 2 False show ?thesis by auto
  qed
qed

lemma first_seen_by_keys: "f ` set (first_seen_by f xs) = f ` set xs"
  by (induction f xs rule: first_seen_by.induct) auto

lemma first_seen_by_distinct: "distinct (map f (first_seen_by f xs))"
  by (induction f xs rule: first_seen_by.induct) (auto simp: first_seen_by_keys)

lemma add_track_step:
  "add_track (first_seen_by tid xs, tid ` set xs) t = (first_seen_by tid (xs @ [t]), tid ` set (xs @ [t]))"
  by (auto simp: add_track_def first_seen_by_snoc)

lemma add_track_fold:
  "foldl add_track (first_seen_by tid xs, tid ` set xs) ts =
     (first_seen_by tid (xs @ ts), tid ` set (xs @ ts))"
proof (induction ts arbitrary: xs)
  case Nil
  show ?case by simp
next
  case (Cons t ts)
  show ?case using Cons.IH[of "xs @ [t]"] by (simp add: add_track_step del: set_append)
qed

lemma add_item_fold:
  "foldl add_item (first_seen_by tid xs, tid ` set xs) its =
     (first_seen_by tid (xs @ List.map_filter (\<lambda>i. i) its),
      tid ` set (xs @ List.map_filter (\<lambda>i. i) its))"
proof (induction its arbitrary: xs)
  case Nil
  show ?case by (simp add: List.map_filter_simps)
next
  case (Cons i its)
  show ?case
  proof (cases i)
    case None
    then show ?thesis using Cons.IH[of xs] by (simp add: add_item_def List.map_filter_simps)
  next
    case (Some t)
    have "add_item (first_seen_by tid xs, tid ` set xs) (Some t) =
            (first_seen_by tid (xs @ [t]), tid ` set (xs @ [t]))"
      using add_track_step[of xs t] by (simp add: add_item_def add_track_def)
    then show ?thesis using Some Cons.IH[of "xs @ [t]"]
      by (simp add: List.map_filter_simps del: set_append)
  qed
qed

lemma read_pages_eq:
  "read_pages p (first_seen_by tid xs, tid ` set xs) =
     (first_seen_by tid (xs @ page_tracks p), tid ` set (xs @ page_tracks p))"
proof (induction p arbitrary: xs)
  case End
  show ?case by simp
next
  case Fail
  show ?case by simp
next
  case (Page its rest)
  show ?case
    using Page.IH[of "xs @ List.map_filter (\<lambda>i. i) its"]
    by (simp add: add_item_fold del: set_append)
qed

lemma read_source_eq:
  "read_source lib (first_seen_by tid xs, tid ` set xs) playlist_id =
     (first_seen_by tid (xs @ source_tracks lib playlist_id),
      tid ` set (xs @ source_tracks lib playlist_id))"
  by (cases "saved_tracks lib")
     (simp_all add: read_source_def source_tracks_def add_track_fold read_pages_eq del: set_append)

lemma read_sources_fold:
  "foldl (read_source lib) (first_seen_by tid xs, tid ` set xs) playlist_ids =
     (first_seen_by tid (xs @ concat (map (source_tracks lib) playlist_ids)),
      tid ` set (xs @ concat (map (source_tracks lib) playlist_ids)))"
proof (induction playlist_ids arbitrary: xs)
  case Nil
  show ?case by simp
next
  case (Cons p ps)
  show ?case using Cons.IH[of "xs @ source_tracks lib p"]
    by (simp add: read_source_eq del: set_append)
qed

section \<open>Tracks from several playlists: claims\<close>

text \<open>
  C8. For every list of sources, playlists and the liked songs in any order, the output
  of \<^verbatim>\<open>get_tracks_from_playlists\<close> is the sequence of the delivered tracks in first-seen
  order by track id: no id occurs twice, every delivered id occurs, and a track whose id
  a later source (or the same source) brings again is dropped without error.
\<close>

theorem deduplicated_in_first_seen_order:
  "get_tracks_from_playlists lib playlist_ids =
     first_seen_by tid (concat (map (source_tracks lib) playlist_ids))
   \<and> distinct (map tid (get_tracks_from_playlists lib playlist_ids))
   \<and> tid ` set (get_tracks_from_playlists lib playlist_ids) =
       tid ` set (concat (map (source_tracks lib) playlist_ids))"
proof -
  have "get_tracks_from_playlists lib playlist_ids =
     first_seen_by tid (concat (map (source_tracks lib) playlist_ids))"
    using read_sources_fold[of lib "[]" playlist_ids]
    by (simp add: get_tracks_from_playlists_def)
  then show ?thesis
    by (simp only: first_seen_by_distinct first_seen_by_keys simp_thms)
qed

theorem deduplicated_in_first_seen_order_witness:
  "get_tracks_from_playlists example_library [''p1'', ''liked_songs'', ''p2''] =
     [mk_track ''t1'' ''a1'' None None, mk_track ''t2'' ''a1'' None None,
      mk_track ''t3'' ''a1'' None None]"
  using deduplicated_in_first_seen_order[of example_library "[''p1'', ''liked_songs'', ''p2'']"]
  by (simp add: source_tracks_def example_library_def List.map_filter_simps mk_track_def)

section \<open>The paginator: helper lemmas\<close>

lemma collect_items_nolimit:
  "\<not> truthy_int limit \<Longrightarrow> collect_items limit tracks its = tracks @ its"
  by (induction its arbitrary: tracks) (simp_all add: Let_def)

lemma collect_items_limit:
  "0 < L \<Longrightarrow> length tracks < L \<Longrightarrow>
     collect_items (Some (int L)) tracks its = tracks @ take (L - length tracks) its"
proof (induction its arbitrary: tracks)
  case Nil
  show ?case by simp
next
  case (Cons i its)
  show ?case
  proof (cases "L \<le> Suc (length tracks)")
    case True
    with Cons.prems have "L - length tracks = Suc 0" by simp
    with True Cons.prems show ?thesis by (simp add: Let_def truthy_int_def)
  next
    case False
    then have lt: "length (tracks @ [i]) < L" by simp
    have "L - length tracks = Suc (L - length (tracks @ [i]))" using False by simp
    with Cons.IH[OF Cons.prems(1) lt] False Cons.prems show ?thesis
      by (simp add: Let_def truthy_int_def)
  qed
qed

lemma offsets_snoc: "map (\<lambda>k. 50 * k) [0..<k] @ [50 * k] = map (\<lambda>k. 50 * k) [0..<Suc k]"
  by simp

lemma take_take_drop: "take a xs @ take b (drop a xs) = take (a + b) xs"
  by (simp add: take_add)

lemma loop_step:
  "saved_tracks_loop fetch limit tracks offset fetched =
     (if items (fetch offset) = [] then Some (tracks, fetched @ [offset])
      else if \<not> has_next (fetch offset)
              \<or> (truthy_int limit
                  \<and> the limit \<le> int (length (collect_items limit tracks (items (fetch offset)))))
           then Some (collect_items limit tracks (items (fetch offset)), fetched @ [offset])
           else saved_tracks_loop fetch limit (collect_items limit tracks (items (fetch offset)))
                  (offset + 50) (fetched @ [offset]))"
  by (subst saved_tracks_loop.simps) (simp add: Let_def)

lemma endpoint_items_empty:
  "(items (saved_tracks_endpoint lib offset) = []) = (length lib \<le> offset)"
  by (simp add: saved_tracks_endpoint_def)

lemma endpoint_has_next:
  "has_next (saved_tracks_endpoint lib offset) = (offset + 50 < length lib)"
  by (simp add: saved_tracks_endpoint_def)

lemma pages_needed_exact: "50 * k < n \<Longrightarrow> n \<le> 50 * k + 50 \<Longrightarrow> pages_needed n = Suc k"
  unfolding pages_needed_def by arith

lemma loop_nolimit:
  assumes "\<not> truthy_int limit" and "k = 0 \<or> 50 * k < length lib"
  shows "saved_tracks_loop (saved_tracks_endpoint lib) limit (take (50 * k) lib) (50 * k)
           (map (\<lambda>k. 50 * k) [0..<k])
         = Some (lib, map (\<lambda>k. 50 * k) [0..<pages_needed (length lib)])"
  using assms(2)
proof (induction "length lib - 50 * k" arbitrary: k rule: less_induct)
  case less
  show ?case
  proof (cases "lib = []")
    case True
    with less.prems have "k = 0" by simp
    with True show ?thesis
      by (subst loop_step) (simp add: endpoint_items_empty pages_needed_def)
  next
    case ne: False
    have lt: "50 * k < length lib" using less.prems ne by auto
    have ci: "collect_items limit (take (50 * k) lib) (items (saved_tracks_endpoint lib (50 * k)))
                = take (50 * k + 50) lib"
      by (simp add: collect_items_nolimit[OF assms(1)] saved_tracks_endpoint_def take_take_drop)
    have nemp: "items (saved_tracks_endpoint lib (50 * k)) \<noteq> []"
      using lt by (simp add: endpoint_items_empty)
    show ?thesis
    proof (cases "50 * k + 50 < length lib")
      case True
      have "50 * Suc k < length lib" using True by simp
      then have "saved_tracks_loop (saved_tracks_endpoint lib) limit (take (50 * Suc k) lib) (50 * Suc k)
           (map (\<lambda>k. 50 * k) [0..<Suc k])
         = Some (lib, map (\<lambda>k. 50 * k) [0..<pages_needed (length lib)])"
        using less.hyps[of "Suc k"] lt by simp
      then have IH: "saved_tracks_loop (saved_tracks_endpoint lib) limit (take (50 * k + 50) lib) (50 * k + 50)
           (map (\<lambda>k. 50 * k) [0..<k] @ [50 * k])
         = Some (lib, map (\<lambda>k. 50 * k) [0..<pages_needed (length lib)])"
        by (simp add: add.commute)
      show ?thesis
        by (subst loop_step) (simp only: nemp ci endpoint_has_next True assms(1) IH if_False if_True simp_thms)
    next
      case False
      then have all: "take (50 * k + 50) lib = lib" by simp
      have pn: "pages_needed (length lib) = Suc k"
        using False lt by (intro pages_needed_exact) simp_all
      show ?thesis
        by (subst loop_step)
           (simp only: nemp ci endpoint_has_next False assms(1) all pn offsets_snoc if_False if_True simp_thms)
    qed
  qed
qed

lemma loop_limit:
  assumes "0 < L" and "k = 0 \<or> 50 * k < min (length lib) L"
  shows "saved_tracks_loop (saved_tracks_endpoint lib) (Some (int L)) (take (50 * k) lib) (50 * k)
           (map (\<lambda>k. 50 * k) [0..<k])
         = Some (take L lib, map (\<lambda>k. 50 * k) [0..<pages_needed (min (length lib) L)])"
  using assms(2)
proof (induction "length lib - 50 * k" arbitrary: k rule: less_induct)
  case less
  have tr: "truthy_int (Some (int L))" using assms(1) by (simp add: truthy_int_def)
  show ?case
  proof (cases "lib = []")
    case True
    with less.prems have "k = 0" by simp
    with True show ?thesis
      by (subst loop_step) (simp add: endpoint_items_empty pages_needed_def)
  next
    case ne: False
    have lt: "50 * k < length lib" using less.prems ne by auto
    have ltL: "50 * k < L" using less.prems assms(1) by auto
    have "collect_items (Some (int L)) (take (50 * k) lib) (take 50 (drop (50 * k) lib))
            = take (50 * k) lib @ take (L - 50 * k) (take 50 (drop (50 * k) lib))"
      using collect_items_limit[OF assms(1), of "take (50 * k) lib"] lt ltL by simp
    also have "\<dots> = take (50 * k) lib @ take (min (L - 50 * k) 50) (drop (50 * k) lib)"
      by simp
    also have "\<dots> = take (50 * k + min (L - 50 * k) 50) lib"
      by (rule take_take_drop)
    also have "50 * k + min (L - 50 * k) 50 = min (50 * k + 50) L"
      using ltL by simp
    finally have ci: "collect_items (Some (int L)) (take (50 * k) lib)
                        (items (saved_tracks_endpoint lib (50 * k)))
                = take (min (50 * k + 50) L) lib"
      by (simp add: saved_tracks_endpoint_def)
    have nemp: "items (saved_tracks_endpoint lib (50 * k)) \<noteq> []"
      using lt by (simp add: endpoint_items_empty)
    show ?thesis
    proof (cases "50 * k + 50 < length lib \<and> 50 * k + 50 < L")
      case True
      have m: "min (50 * k + 50) L = 50 * k + 50" using True by simp
      have nolim: "\<not> int L \<le> int (length (take (50 * k + 50) lib))" using True by simp
      have nxt: "Suc k = 0 \<or> 50 * Suc k < min (length lib) L" using True by simp
      have dec: "length lib - 50 * Suc k < length lib - 50 * k" using lt by arith
      have "saved_tracks_loop (saved_tracks_endpoint lib) (Some (int L)) (take (50 * Suc k) lib)
           (50 * Suc k) (map (\<lambda>k. 50 * k) [0..<Suc k])
         = Some (take L lib, map (\<lambda>k. 50 * k) [0..<pages_needed (min (length lib) L)])"
        by (rule less.hyps[OF dec nxt])
      then have IH: "saved_tracks_loop (saved_tracks_endpoint lib) (Some (int L))
           (take (50 * k + 50) lib) (50 * k + 50) (map (\<lambda>k. 50 * k) [0..<k] @ [50 * k])
         = Some (take L lib, map (\<lambda>k. 50 * k) [0..<pages_needed (min (length lib) L)])"
        by (simp add: add.commute)
      have hn: "has_next (saved_tracks_endpoint lib (50 * k))" using True by (simp add: endpoint_has_next)
      show ?thesis
        by (subst loop_step)
           (simp only: nemp ci m hn nolim tr IH option.sel if_False if_True simp_thms)
    next
      case False
      have res: "take (min (50 * k + 50) L) lib = take L lib"
      proof (cases "L \<le> 50 * k + 50")
        case True
        then show ?thesis by (simp add: min_def)
      next
        case F: False
        with False have "length lib \<le> 50 * k + 50" by simp
        with F show ?thesis by (simp add: min_def)
      qed
      have stop: "\<not> has_next (saved_tracks_endpoint lib (50 * k))
                  \<or> (truthy_int (Some (int L)) \<and> the (Some (int L)) \<le> int (length (take L lib)))"
        using False tr by (auto simp: endpoint_has_next)
      have pn: "pages_needed (min (length lib) L) = Suc k"
        using False lt ltL by (intro pages_needed_exact) auto
      show ?thesis
        by (subst loop_step)
           (simp only: nemp ci res stop pn offsets_snoc if_False if_True simp_thms)
    qed
  qed
qed

section \<open>The paginator: claims\<close>

text \<open>
  C7, as the code has it. For every saved-tracks collection and every limit that is absent
  or positive, \<^verbatim>\<open>get_saved_tracks\<close> returns: its result is the collection cut to the
  limit, that is exactly min(total, limit) items in page order; the pages fetched are the
  first pages that hold these items and no page after them; an empty first page gives the
  empty list after one fetch.
\<close>

theorem paginator_returns_limited_prefix:
  assumes "case limit of None \<Rightarrow> True | Some l \<Rightarrow> 0 < l"
  shows "get_saved_tracks (saved_tracks_endpoint lib) limit =
           Some (limited_prefix limit lib,
                 map (\<lambda>k. 50 * k) [0..<pages_needed (length (limited_prefix limit lib))])
       \<and> length (limited_prefix limit lib) =
           (case limit of None \<Rightarrow> length lib | Some l \<Rightarrow> min (length lib) (nat l))"
proof (cases limit)
  case None
  have "saved_tracks_loop (saved_tracks_endpoint lib) None [] 0 []
          = Some (lib, map (\<lambda>k. 50 * k) [0..<pages_needed (length lib)])"
    using loop_nolimit[of None 0 lib] by (simp add: truthy_int_def)
  with None show ?thesis
    by (simp add: get_saved_tracks_def limited_prefix_def truthy_int_def)
next
  case (Some l)
  with assms have pos: "0 < l" by simp
  then have l: "l = int (nat l)" and L: "0 < nat l" by simp_all
  have "saved_tracks_loop (saved_tracks_endpoint lib) (Some (int (nat l))) [] 0 []
          = Some (take (nat l) lib, map (\<lambda>k. 50 * k) [0..<pages_needed (min (length lib) (nat l))])"
    using loop_limit[OF L, of 0 lib] by simp
  then have "saved_tracks_loop (saved_tracks_endpoint lib) (Some l) [] 0 []
          = Some (take (nat l) lib, map (\<lambda>k. 50 * k) [0..<pages_needed (min (length lib) (nat l))])"
    using l by simp
  with Some pos show ?thesis
    by (simp add: get_saved_tracks_def limited_prefix_def truthy_int_def slice_to_def)
qed

theorem paginator_returns_limited_prefix_witness:
  "(0::int) < 60
   \<and> get_saved_tracks (saved_tracks_endpoint (map int [0..<120])) (Some 60)
       = Some (map int [0..<60], [0, 50])"
  using paginator_returns_limited_prefix[of "Some 60" "map int [0..<120]"]
  by (simp add: limited_prefix_def pages_needed_def take_map)

text \<open>The claim as the specification words it fails for the limit 0, which the truth
  tests on \<^verbatim>\<open>limit\<close> take for no limit: all three tracks are returned, not min(3, 0).\<close>

theorem paginator_limit_zero_counterexample:
  "get_saved_tracks (saved_tracks_endpoint [1::int, 2, 3]) (Some 0) = Some ([1, 2, 3], [0])"
  by (simp add: get_saved_tracks_def loop_step saved_tracks_endpoint_def truthy_int_def)

end
